theory Spec2Isabelle
  imports Complex_Main "HOL-Library.Signed_Division" "HOL-Library.Multiset"
begin

section \<open>Tower defence: combat simulation and wave progression\<close>

text \<open>
  A shallow embedding of \<^verbatim>\<open>newProject.cpp\<close>. Conventions of the model:
  \<^item> \<^verbatim>\<open>float\<close> values are idealised as \<^typ>\<open>real\<close>: rounding is not modelled.
  \<^item> \<^verbatim>\<open>int\<close> values are \<^typ>\<open>int\<close>: the hit points and elixir of a match stay
    far inside the 32-bit range.
  \<^item> A \<^verbatim>\<open>Unit*\<close> is the \<open>uid\<close> of a unit, a number standing for its address; the
    live collection \<^verbatim>\<open>std::list<std::unique_ptr<Unit>>\<close> is a list of unit
    records, and a member function of \<^verbatim>\<open>Unit\<close> takes the collection and the
    index of \<^verbatim>\<open>this\<close> in it.
  \<^item> Colours, sizes and names, which only the drawing code reads, are left out.
\<close>

subsection \<open>Constants\<close>

definition SCREEN_WIDTH :: int where "SCREEN_WIDTH = 1200"
definition SCREEN_HEIGHT :: int where "SCREEN_HEIGHT = 800"
definition LANE_Y :: int where "LANE_Y = SCREEN_HEIGHT div 2"

definition TOWER_HP :: int where "TOWER_HP = 3500"
definition TOWER_DAMAGE :: int where "TOWER_DAMAGE = 50"
definition TOWER_ATTACK_RATE :: real where "TOWER_ATTACK_RATE = 1.0"
definition TOWER_RANGE :: real where "TOWER_RANGE = 300.0"

definition FREEZE_DURATION :: real where "FREEZE_DURATION = 5.0"
definition FREEZE_COOLDOWN :: real where "FREEZE_COOLDOWN = 30.0"
definition MAX_ELIXIR :: int where "MAX_ELIXIR = 10"
definition ELIXIR_RATE :: real where "ELIXIR_RATE = 2.0"
definition GAME_TIME_LIMIT :: real where "GAME_TIME_LIMIT = 120.0"

lemmas consts_defs =
  SCREEN_WIDTH_def SCREEN_HEIGHT_def LANE_Y_def TOWER_HP_def TOWER_DAMAGE_def
  TOWER_ATTACK_RATE_def TOWER_RANGE_def FREEZE_DURATION_def FREEZE_COOLDOWN_def
  MAX_ELIXIR_def ELIXIR_RATE_def GAME_TIME_LIMIT_def

subsection \<open>Data\<close>

datatype GameState = START_SCREEN | PLAYING | GAME_OVER

datatype UnitType = KNIGHT | ARCHER | GIANT | WIZARD

text \<open>\<^verbatim>\<open>struct UnitStats\<close>; the fields carry the prefix \<open>s_\<close> to keep them apart from
  the fields of \<^verbatim>\<open>Unit\<close>.\<close>

record UnitStats =
  s_cost :: int
  s_hp :: int
  s_damage :: int
  s_speed :: real
  s_attackRate :: real
  s_range :: real
  s_isRanged :: bool

record WaveUnit =
  w_type :: UnitType
  w_count :: int

record Vector2 =
  vx :: real
  vy :: real

record Unit =
  uid :: nat
  utype :: UnitType
  position :: Vector2
  currentHP :: int
  maxHP :: int
  damage :: int
  speed :: real
  attackRate :: real
  attackRange :: real
  isRanged :: bool
  attackTimer :: real
  isPlayer :: bool
  isAlive :: bool
  target :: "nat option"
  isFrozen :: bool
  freezeTimer :: real
  path :: "Vector2 list"
  currentTargetPos :: Vector2

text \<open>\<^verbatim>\<open>struct GameWave\<close>. The chain built by \<^verbatim>\<open>InitializeWaves\<close> is the list of
  its nodes in \<^verbatim>\<open>nextWave\<close> order: the successor of a node is the next element, and
  the last node has \<^verbatim>\<open>nextWave == nullptr\<close>.\<close>

record GameWave =
  waveNumber :: int
  waveUnits :: "WaveUnit list"
  spawnRate :: real
  waveCooldown :: real

subsection \<open>Unit statistics\<close>

fun getUnitStats :: "UnitType \<Rightarrow> UnitStats" where
  "getUnitStats KNIGHT = \<lparr>s_cost = 3, s_hp = 300, s_damage = 60, s_speed = 80.0,
     s_attackRate = 1.2, s_range = 40.0, s_isRanged = False\<rparr>"
| "getUnitStats ARCHER = \<lparr>s_cost = 3, s_hp = 150, s_damage = 40, s_speed = 60.0,
     s_attackRate = 1.5, s_range = 150.0, s_isRanged = True\<rparr>"
| "getUnitStats GIANT = \<lparr>s_cost = 5, s_hp = 1000, s_damage = 80, s_speed = 40.0,
     s_attackRate = 2.0, s_range = 50.0, s_isRanged = False\<rparr>"
| "getUnitStats WIZARD = \<lparr>s_cost = 4, s_hp = 180, s_damage = 70, s_speed = 50.0,
     s_attackRate = 2.5, s_range = 120.0, s_isRanged = True\<rparr>"

text \<open>\<^verbatim>\<open>Game::GetUnitStats\<close>, the controller's own copy of the table.\<close>

fun GetUnitStats :: "UnitType \<Rightarrow> UnitStats" where
  "GetUnitStats KNIGHT = \<lparr>s_cost = 3, s_hp = 300, s_damage = 60, s_speed = 80.0,
     s_attackRate = 1.2, s_range = 40.0, s_isRanged = False\<rparr>"
| "GetUnitStats ARCHER = \<lparr>s_cost = 3, s_hp = 150, s_damage = 40, s_speed = 60.0,
     s_attackRate = 1.5, s_range = 150.0, s_isRanged = True\<rparr>"
| "GetUnitStats GIANT = \<lparr>s_cost = 5, s_hp = 1000, s_damage = 80, s_speed = 40.0,
     s_attackRate = 2.0, s_range = 50.0, s_isRanged = False\<rparr>"
| "GetUnitStats WIZARD = \<lparr>s_cost = 4, s_hp = 180, s_damage = 70, s_speed = 50.0,
     s_attackRate = 2.5, s_range = 120.0, s_isRanged = True\<rparr>"

subsection \<open>Geometry and paths\<close>

definition CalculateDistance :: "Vector2 \<Rightarrow> Vector2 \<Rightarrow> real" where
  "CalculateDistance a b =
     sqrt ((vx a - vx b) * (vx a - vx b) + (vy a - vy b) * (vy a - vy b))"

text \<open>The cast \<^verbatim>\<open>(int)position.x\<close> truncates toward zero.\<close>

definition float_to_int :: "real \<Rightarrow> int" where
  "float_to_int r = (if 0 \<le> r then \<lfloor>r\<rfloor> else \<lceil>r\<rceil>)"

text \<open>The two loops of \<^verbatim>\<open>Unit::generatePath\<close>.\<close>

function pathRight :: "int \<Rightarrow> Vector2 list" where
  "pathRight x =
     (if x < SCREEN_WIDTH - 50
      then \<lparr>vx = real_of_int x, vy = real_of_int LANE_Y\<rparr> # pathRight (x + 50)
      else [])"
  by pat_completeness auto
termination
  by (relation "measure (\<lambda>x. nat (SCREEN_WIDTH - 50 - x))") auto

function pathLeft :: "int \<Rightarrow> Vector2 list" where
  "pathLeft x =
     (if x > 50
      then \<lparr>vx = real_of_int x, vy = real_of_int LANE_Y\<rparr> # pathLeft (x - 50)
      else [])"
  by pat_completeness auto
termination
  by (relation "measure (\<lambda>x. nat (x - 50))") auto

declare pathRight.simps [simp del] pathLeft.simps [simp del]

definition generatePath :: "Unit \<Rightarrow> Unit" where
  "generatePath u =
     (let p = (if isPlayer u then pathRight (float_to_int (vx (position u)))
               else pathLeft (float_to_int (vx (position u))))
      in u\<lparr>path := p,
           currentTargetPos := (if p \<noteq> [] then hd p else currentTargetPos u)\<rparr>)"

text \<open>The constructor \<^verbatim>\<open>Unit::Unit(unitType, player)\<close>; \<open>k\<close> is the address of the
  new object.\<close>

definition newUnit :: "nat \<Rightarrow> UnitType \<Rightarrow> bool \<Rightarrow> Unit" where
  "newUnit k unitType player =
     (let stats = getUnitStats unitType in
      generatePath
        \<lparr>uid = k, utype = unitType,
         position = (if player then \<lparr>vx = 150.0, vy = real_of_int LANE_Y\<rparr>
                     else \<lparr>vx = real_of_int SCREEN_WIDTH - 150.0, vy = real_of_int LANE_Y\<rparr>),
         currentHP = s_hp stats, maxHP = s_hp stats, damage = s_damage stats,
         speed = s_speed stats, attackRate = s_attackRate stats,
         attackRange = s_range stats, isRanged = s_isRanged stats,
         attackTimer = 0.0, isPlayer = player, isAlive = True, target = None,
         isFrozen = False, freezeTimer = 0.0, path = [],
         currentTargetPos = (if player then \<lparr>vx = real_of_int SCREEN_WIDTH - 50.0, vy = real_of_int LANE_Y\<rparr>
                             else \<lparr>vx = 50.0, vy = real_of_int LANE_Y\<rparr>)\<rparr>)"

definition FollowPath :: "real \<Rightarrow> Unit \<Rightarrow> Unit" where
  "FollowPath deltaTime u =
     (if path u = [] then u
      else
        let dx = vx (currentTargetPos u) - vx (position u);
            dy = vy (currentTargetPos u) - vy (position u);
            distance = sqrt (dx * dx + dy * dy)
        in if distance < 5.0
           then (let p = tl (path u)
                 in u\<lparr>path := p,
                      currentTargetPos := (if p \<noteq> [] then hd p else currentTargetPos u)\<rparr>)
           else u\<lparr>position :=
                     \<lparr>vx = vx (position u) + dx / distance * speed u * deltaTime,
                      vy = vy (position u) + dy / distance * speed u * deltaTime\<rparr>\<rparr>)"

subsection \<open>Pointers into the live collection\<close>

text \<open>Dereferencing a \<^verbatim>\<open>Unit*\<close>: the unit of the collection at that address. An
  address with no unit in the collection is a dangling pointer (the unit was erased);
  the source's behaviour on it is undefined, and the model treats it as no unit.\<close>

definition unitAt :: "Unit list \<Rightarrow> nat \<Rightarrow> Unit option" where
  "unitAt us k = find (\<lambda>u. uid u = k) us"

definition hpAt :: "Unit list \<Rightarrow> nat \<Rightarrow> int" where
  "hpAt us k = (case unitAt us k of Some u \<Rightarrow> currentHP u | None \<Rightarrow> 0)"

text \<open>A write through a \<^verbatim>\<open>Unit*\<close>.\<close>

definition modifyAt :: "nat \<Rightarrow> (Unit \<Rightarrow> Unit) \<Rightarrow> Unit list \<Rightarrow> Unit list" where
  "modifyAt k f us = map (\<lambda>u. if uid u = k then f u else u) us"

text \<open>\<^verbatim>\<open>target && target->isAlive\<close>.\<close>

definition targetAlive :: "Unit list \<Rightarrow> nat option \<Rightarrow> bool" where
  "targetAlive us t =
     (case t of None \<Rightarrow> False
      | Some k \<Rightarrow> (case unitAt us k of None \<Rightarrow> False | Some u \<Rightarrow> isAlive u))"

subsection \<open>The library's sort and heap\<close>

text \<open>\<^verbatim>\<open>std::sort\<close> on a range of at most 16 elements is an insertion sort (libstdc++
  \<^verbatim>\<open>__insertion_sort\<close>): an element that compares before the first one is moved to
  the front; any other element is moved left past the elements it compares before.
  \<open>linear_insert\<close> works on the reversed prefix.\<close>

fun linear_insert :: "('a \<Rightarrow> 'a \<Rightarrow> bool) \<Rightarrow> 'a \<Rightarrow> 'a list \<Rightarrow> 'a list" where
  "linear_insert cmp v [] = [v]"
| "linear_insert cmp v (p # ps) =
     (if cmp v p then p # linear_insert cmp v ps else v # p # ps)"

definition insertion_step :: "('a \<Rightarrow> 'a \<Rightarrow> bool) \<Rightarrow> 'a list \<Rightarrow> 'a \<Rightarrow> 'a list" where
  "insertion_step cmp pre v =
     (if cmp v (hd pre) then v # pre else rev (linear_insert cmp v (rev pre)))"

fun std_sort :: "('a \<Rightarrow> 'a \<Rightarrow> bool) \<Rightarrow> 'a list \<Rightarrow> 'a list" where
  "std_sort cmp [] = []"
| "std_sort cmp (x # xs) = foldl (insertion_step cmp) [x] xs"

text \<open>\<^verbatim>\<open>std::priority_queue::push\<close>: append, then sift the new value up the binary
  heap (\<^verbatim>\<open>__push_heap\<close>); \<^verbatim>\<open>top\<close> is the front of the vector.\<close>

function push_heap :: "('a \<Rightarrow> 'a \<Rightarrow> bool) \<Rightarrow> 'a \<Rightarrow> nat \<Rightarrow> 'a list \<Rightarrow> 'a list" where
  "push_heap cmp v hole xs =
     (if hole > 0 \<and> cmp (xs ! ((hole - 1) div 2)) v
      then push_heap cmp v ((hole - 1) div 2) (xs[hole := xs ! ((hole - 1) div 2)])
      else xs[hole := v])"
  by pat_completeness auto
termination
  by (relation "measure (\<lambda>(cmp, v, hole, xs). hole)") auto

declare push_heap.simps [simp del]

definition pq_push :: "('a \<Rightarrow> 'a \<Rightarrow> bool) \<Rightarrow> 'a list \<Rightarrow> 'a \<Rightarrow> 'a list" where
  "pq_push cmp q v = push_heap cmp v (length q) (q @ [v])"

subsection \<open>Targeting\<close>

text \<open>The lambda passed to \<^verbatim>\<open>std::sort\<close> in \<^verbatim>\<open>Unit::FindTargetWithPriority\<close>.\<close>

definition unitTargetLess :: "Unit list \<Rightarrow> nat \<times> real \<Rightarrow> nat \<times> real \<Rightarrow> bool" where
  "unitTargetLess us a b =
     (if \<bar>snd a - snd b\<bar> < 10.0 then hpAt us (fst a) < hpAt us (fst b)
      else snd a < snd b)"

text \<open>\<^verbatim>\<open>TowerTargetPriority::operator()\<close>.\<close>

definition TowerTargetPriority :: "Unit list \<Rightarrow> nat \<times> real \<Rightarrow> nat \<times> real \<Rightarrow> bool" where
  "TowerTargetPriority us a b =
     (if \<bar>snd a - snd b\<bar> < 10.0 then hpAt us (fst a) > hpAt us (fst b)
      else snd a > snd b)"

fun potentialTargets :: "Unit \<Rightarrow> Unit list \<Rightarrow> (nat \<times> real) list" where
  "potentialTargets me [] = []"
| "potentialTargets me (u # us) =
     (if isAlive u \<and> isPlayer u \<noteq> isPlayer me
      then (let distance = CalculateDistance (position me) (position u)
            in if distance \<le> attackRange me * 1.5
               then (uid u, distance) # potentialTargets me us
               else potentialTargets me us)
      else potentialTargets me us)"

definition FindTargetWithPriority :: "nat \<Rightarrow> Unit list \<Rightarrow> Unit list" where
  "FindTargetWithPriority i allUnits =
     (let me = allUnits ! i; pt = potentialTargets me allUnits
      in if pt \<noteq> []
         then allUnits[i := me\<lparr>target := Some (fst (hd (std_sort (unitTargetLess allUnits) pt)))\<rparr>]
         else allUnits[i := me\<lparr>target := None\<rparr>])"

subsection \<open>Unit attack and update\<close>

text \<open>\<^verbatim>\<open>Unit::Attack(targetUnit, allUnits)\<close> for the unit at index \<open>i\<close>. The integer
  division \<^verbatim>\<open>damage / 2\<close> truncates toward zero.\<close>

definition Attack :: "nat \<Rightarrow> nat option \<Rightarrow> Unit list \<Rightarrow> Unit list" where
  "Attack i targetUnit allUnits =
     (if \<not> targetAlive allUnits targetUnit then allUnits
      else
        let me = allUnits ! i;
            k = the targetUnit;
            tpos = position (the (unitAt allUnits k));
            us1 = modifyAt k (\<lambda>u. u\<lparr>currentHP := currentHP u - damage me\<rparr>) allUnits;
            us2 = (if utype me = WIZARD
                   then map (\<lambda>u. if isAlive u \<and> uid u \<noteq> k \<and> isPlayer u \<noteq> isPlayer me
                                     \<and> CalculateDistance (position u) tpos < 60.0
                                  then u\<lparr>currentHP := currentHP u - damage me sdiv 2\<rparr>
                                  else u) us1
                   else us1)
        in if hpAt us2 k \<le> 0
           then (let us3 = modifyAt k (\<lambda>u. u\<lparr>isAlive := False\<rparr>) us2
                 in us3[i := (us3 ! i)\<lparr>target := None\<rparr>])
           else us2)"

text \<open>\<^verbatim>\<open>Unit::Update(deltaTime, allUnits)\<close> for the unit at index \<open>i\<close>.\<close>

definition Unit_Update :: "real \<Rightarrow> nat \<Rightarrow> Unit list \<Rightarrow> Unit list" where
  "Unit_Update deltaTime i allUnits =
     (let me = allUnits ! i in
      if \<not> isAlive me then allUnits
      else if isFrozen me
      then allUnits[i := me\<lparr>freezeTimer := freezeTimer me - deltaTime,
                            isFrozen := (if freezeTimer me - deltaTime \<le> 0 then False
                                         else isFrozen me)\<rparr>]
      else
        let us1 = (if \<not> targetAlive allUnits (target me)
                   then FindTargetWithPriority i allUnits else allUnits);
            me1 = us1 ! i
        in if targetAlive us1 (target me1)
           then
             (let distanceToTarget =
                    CalculateDistance (position me1)
                      (position (the (unitAt us1 (the (target me1)))))
              in if distanceToTarget \<le> attackRange me1
                 then
                   (let us2 = us1[i := me1\<lparr>attackTimer := attackTimer me1 + deltaTime\<rparr>]
                    in if attackTimer (us2 ! i) \<ge> attackRate (us2 ! i)
                       then (let us3 = Attack i (target (us2 ! i)) us2
                             in us3[i := (us3 ! i)\<lparr>attackTimer := 0.0\<rparr>])
                       else us2)
                 else us1[i := (FollowPath deltaTime me1)\<lparr>attackTimer := 0.0\<rparr>])
           else us1[i := FollowPath deltaTime me1])"

lemma length_Unit_Update [simp]: "length (Unit_Update deltaTime i allUnits) = length allUnits"
  by (simp add: Unit_Update_def Let_def Attack_def FindTargetWithPriority_def modifyAt_def)

subsection \<open>Projectiles\<close>

record Projectile =
  startPos :: Vector2
  endPos :: Vector2
  progress :: real
  active :: bool

definition newProjectile :: "Vector2 \<Rightarrow> Vector2 \<Rightarrow> Projectile" where
  "newProjectile start finish = \<lparr>startPos = start, endPos = finish, progress = 0.0, active = True\<rparr>"

definition Projectile_Update :: "real \<Rightarrow> Projectile \<Rightarrow> Projectile" where
  "Projectile_Update deltaTime p =
     (let p1 = p\<lparr>progress := progress p + deltaTime * 3.0\<rparr>
      in if progress p1 \<ge> 1.0 then p1\<lparr>active := False\<rparr> else p1)"

subsection \<open>Towers\<close>

text \<open>\<^verbatim>\<open>class Tower\<close>; the fields carry the prefix \<open>t_\<close>. \<open>targetQueue\<close> is the vector
  under the priority queue, in heap order, of pairs of a unit's address and its
  distance.\<close>

record Tower =
  t_position :: Vector2
  t_currentHP :: int
  t_maxHP :: int
  t_damage :: int
  t_attackRate :: real
  t_attackTimer :: real
  t_isPlayer :: bool
  t_isAlive :: bool
  targetQueue :: "(nat \<times> real) list"

definition newTower :: "bool \<Rightarrow> Tower" where
  "newTower player =
     \<lparr>t_position = (if player then \<lparr>vx = 50.0, vy = real_of_int LANE_Y\<rparr>
                    else \<lparr>vx = real_of_int SCREEN_WIDTH - 50.0, vy = real_of_int LANE_Y\<rparr>),
      t_currentHP = TOWER_HP, t_maxHP = TOWER_HP, t_damage = TOWER_DAMAGE,
      t_attackRate = TOWER_ATTACK_RATE, t_attackTimer = 0.0, t_isPlayer = player,
      t_isAlive = True, targetQueue = []\<rparr>"

text \<open>The body of the loop of \<^verbatim>\<open>Tower::UpdateTargetQueue\<close>.\<close>

definition queueUnit :: "Tower \<Rightarrow> Unit list \<Rightarrow> (nat \<times> real) list \<Rightarrow> Unit \<Rightarrow> (nat \<times> real) list" where
  "queueUnit t allUnits q u =
     (if isAlive u \<and> isPlayer u \<noteq> t_isPlayer t
      then (let distance = CalculateDistance (t_position t) (position u)
            in if distance < TOWER_RANGE
               then pq_push (TowerTargetPriority allUnits) q (uid u, distance)
               else q)
      else q)"

definition UpdateTargetQueue :: "Unit list \<Rightarrow> Tower \<Rightarrow> Tower" where
  "UpdateTargetQueue allUnits t = t\<lparr>targetQueue := foldl (queueUnit t allUnits) [] allUnits\<rparr>"

definition Tower_Update :: "real \<Rightarrow> Unit list \<Rightarrow> Tower \<Rightarrow> Tower" where
  "Tower_Update deltaTime allUnits t =
     (if \<not> t_isAlive t then t
      else UpdateTargetQueue allUnits (t\<lparr>t_attackTimer := t_attackTimer t + deltaTime\<rparr>))"

definition CanAttack :: "Tower \<Rightarrow> bool" where
  "CanAttack t = (t_attackTimer t \<ge> t_attackRate t)"

definition ResetAttackTimer :: "Tower \<Rightarrow> Tower" where
  "ResetAttackTimer t = t\<lparr>t_attackTimer := 0.0\<rparr>"

definition GetBestTarget :: "Tower \<Rightarrow> nat option" where
  "GetBestTarget t = (if targetQueue t \<noteq> [] then Some (fst (hd (targetQueue t))) else None)"

subsection \<open>The match controller\<close>

text \<open>\<^verbatim>\<open>class Game\<close>. \<open>waves\<close> is the chain that \<^verbatim>\<open>waveList\<close> points to and
  \<open>currentWave\<close> the position of the current node in it (\<open>None\<close> for the null
  pointer). \<open>nextUid\<close> belongs to the model only: the address the next allocated unit
  gets, different from every address handed out before.\<close>

record Game =
  currentState :: GameState
  playerTower :: Tower
  enemyTower :: Tower
  units :: "Unit list"
  projectiles :: "Projectile list"
  freezeAvailable :: bool
  freezeCooldown :: real
  playerElixir :: int
  enemyElixir :: int
  elixirTimer :: real
  waves :: "GameWave list"
  currentWave :: "nat option"
  waveSpawnTimer :: real
  currentUnitTypeIndex :: nat
  unitsSpawnedForCurrentType :: int
  isBetweenWaves :: bool
  betweenWavesTimer :: real
  gameTimer :: real
  gameOver :: bool
  winner :: string
  nextUid :: nat

definition waveList :: "Game \<Rightarrow> nat option" where
  "waveList g = (if waves g = [] then None else Some 0)"

definition mkWave :: "int \<Rightarrow> (UnitType \<times> int) list \<Rightarrow> real \<Rightarrow> real \<Rightarrow> GameWave" where
  "mkWave num us rate cooldown =
     \<lparr>waveNumber = num, waveUnits = map (\<lambda>(t, c). \<lparr>w_type = t, w_count = c\<rparr>) us,
      spawnRate = rate, waveCooldown = cooldown\<rparr>"

text \<open>The chain built by \<^verbatim>\<open>Game::InitializeWaves\<close>.\<close>

definition InitializeWaves :: "GameWave list" where
  "InitializeWaves =
     [mkWave 1 [(KNIGHT, 2), (WIZARD, 1)] 4.0 10.0,
      mkWave 2 [(GIANT, 1), (KNIGHT, 1), (ARCHER, 1)] 3.5 10.0,
      mkWave 3 [(ARCHER, 2), (WIZARD, 1)] 3.5 10.0,
      mkWave 4 [(GIANT, 1), (WIZARD, 2)] 3.5 10.0,
      mkWave 5 [(KNIGHT, 2), (ARCHER, 1), (GIANT, 1)] 3.0 10.0,
      mkWave 6 [(WIZARD, 1), (ARCHER, 2), (KNIGHT, 1)] 3.0 10.0,
      mkWave 7 [(GIANT, 1), (WIZARD, 1), (ARCHER, 2)] 2.5 10.0,
      mkWave 8 [(KNIGHT, 2), (GIANT, 1), (WIZARD, 1)] 2.5 10.0]"

text \<open>The constructor \<^verbatim>\<open>Game::Game()\<close>.\<close>

definition newGame :: Game where
  "newGame =
     \<lparr>currentState = START_SCREEN, playerTower = newTower True, enemyTower = newTower False,
      units = [], projectiles = [], freezeAvailable = True, freezeCooldown = 0.0,
      playerElixir = 5, enemyElixir = 5, elixirTimer = 0.0,
      waves = InitializeWaves, currentWave = Some 0, waveSpawnTimer = 0.0,
      currentUnitTypeIndex = 0, unitsSpawnedForCurrentType = 0, isBetweenWaves = False,
      betweenWavesTimer = 0.0, gameTimer = GAME_TIME_LIMIT, gameOver = False,
      winner = [], nextUid = 0\<rparr>"

definition CreateAttackEffect :: "Vector2 \<Rightarrow> Vector2 \<Rightarrow> Game \<Rightarrow> Game" where
  "CreateAttackEffect from to g = g\<lparr>projectiles := projectiles g @ [newProjectile from to]\<rparr>"

text \<open>\<^verbatim>\<open>Game::CreateFreezeEffect\<close>: \<open>rnd\<close> is the sequence of values that
  \<^verbatim>\<open>GetRandomValue\<close> returns, four for each of the 20 projectiles.\<close>

definition CreateFreezeEffect :: "(nat \<Rightarrow> int) \<Rightarrow> Game \<Rightarrow> Game" where
  "CreateFreezeEffect rnd g =
     g\<lparr>projectiles := projectiles g @
         map (\<lambda>i. newProjectile
                    \<lparr>vx = real_of_int (rnd (4 * i)), vy = real_of_int (rnd (4 * i + 1))\<rparr>
                    \<lparr>vx = real_of_int (rnd (4 * i + 2)), vy = real_of_int (rnd (4 * i + 3))\<rparr>)
             [0..<20]\<rparr>"

definition SpawnUnit :: "UnitType \<Rightarrow> Game \<Rightarrow> Game" where
  "SpawnUnit type g =
     (if currentState g \<noteq> PLAYING then g
      else
        let stats = GetUnitStats type
        in if playerElixir g \<ge> s_cost stats
           then g\<lparr>units := units g @ [newUnit (nextUid g) type True],
                  nextUid := nextUid g + 1,
                  playerElixir := playerElixir g - s_cost stats\<rparr>
           else g)"

definition ActivateFreeze :: "(nat \<Rightarrow> int) \<Rightarrow> Game \<Rightarrow> Game" where
  "ActivateFreeze rnd g =
     (if currentState g \<noteq> PLAYING then g
      else if \<not> freezeAvailable g then g
      else
        CreateFreezeEffect rnd
          (g\<lparr>units := map (\<lambda>u. if \<not> isPlayer u \<and> isAlive u
                                 then u\<lparr>isFrozen := True, freezeTimer := FREEZE_DURATION\<rparr>
                                 else u) (units g),
             freezeAvailable := False,
             freezeCooldown := FREEZE_COOLDOWN\<rparr>))"

definition Reset :: "Game \<Rightarrow> Game" where
  "Reset g =
     g\<lparr>units := [], projectiles := [],
       playerTower := newTower True, enemyTower := newTower False,
       playerElixir := 5, enemyElixir := 5, elixirTimer := 0.0,
       gameOver := False, winner := [], gameTimer := GAME_TIME_LIMIT,
       freezeAvailable := True, freezeCooldown := 0.0,
       currentWave := waveList g, waveSpawnTimer := 0.0,
       currentUnitTypeIndex := 0, unitsSpawnedForCurrentType := 0,
       isBetweenWaves := False, betweenWavesTimer := 0.0\<rparr>"

text \<open>One tower's half of \<^verbatim>\<open>Game::HandleTowerAttacks\<close>; \<open>player\<close> selects the tower.
  The best target is dereferenced without a test of \<^verbatim>\<open>isAlive\<close>. Where it dangles the
  model leaves the state as it is.\<close>

definition towerOf :: "bool \<Rightarrow> Game \<Rightarrow> Tower" where
  "towerOf player g = (if player then playerTower g else enemyTower g)"

definition setTower :: "bool \<Rightarrow> Tower \<Rightarrow> Game \<Rightarrow> Game" where
  "setTower player t g = (if player then g\<lparr>playerTower := t\<rparr> else g\<lparr>enemyTower := t\<rparr>)"

definition towerAttack :: "bool \<Rightarrow> Game \<Rightarrow> Game" where
  "towerAttack player g =
     (let t = towerOf player g in
      if CanAttack t
      then (case GetBestTarget t of
              None \<Rightarrow> g
            | Some k \<Rightarrow>
                (case unitAt (units g) k of
                   None \<Rightarrow> g
                 | Some bestTarget \<Rightarrow>
                     setTower player (ResetAttackTimer t)
                       (CreateAttackEffect (t_position t) (position bestTarget)
                          (g\<lparr>units := modifyAt k
                                (\<lambda>u. u\<lparr>currentHP := currentHP u - t_damage t\<rparr>) (units g)\<rparr>))))
      else g)"

definition HandleTowerAttacks :: "Game \<Rightarrow> Game" where
  "HandleTowerAttacks g = towerAttack False (towerAttack True g)"

text \<open>The loop over the chain at the end of \<^verbatim>\<open>Game::HandleWaveProgression\<close>, run when
  the last wave hands over to the first.\<close>

definition decayWaves :: "GameWave list \<Rightarrow> GameWave list" where
  "decayWaves ws = map (\<lambda>wave. wave\<lparr>spawnRate := max 2.0 (spawnRate wave * 0.9)\<rparr>) ws"

definition HandleWaveProgression :: "real \<Rightarrow> Game \<Rightarrow> Game" where
  "HandleWaveProgression deltaTime g =
     (case currentWave g of
        None \<Rightarrow> g
      | Some c \<Rightarrow>
          if gameOver g then g
          else if isBetweenWaves g
          then
            (let g1 = g\<lparr>betweenWavesTimer := betweenWavesTimer g - deltaTime\<rparr>
             in if betweenWavesTimer g1 \<le> 0
                then g1\<lparr>isBetweenWaves := False, waveSpawnTimer := 0.0,
                        currentUnitTypeIndex := 0, unitsSpawnedForCurrentType := 0\<rparr>
                else g1)
          else
            let g1 = g\<lparr>waveSpawnTimer := waveSpawnTimer g + deltaTime\<rparr>;
                w = waves g1 ! c
            in if currentUnitTypeIndex g1 < length (waveUnits w)
               then
                 (let currentUnitType = waveUnits w ! currentUnitTypeIndex g1
                  in if waveSpawnTimer g1 \<ge> spawnRate w
                        \<and> unitsSpawnedForCurrentType g1 < w_count currentUnitType
                     then
                       (let g2 = g1\<lparr>units := units g1 @
                                       [newUnit (nextUid g1) (w_type currentUnitType) False],
                                     nextUid := nextUid g1 + 1,
                                     unitsSpawnedForCurrentType :=
                                       unitsSpawnedForCurrentType g1 + 1,
                                     waveSpawnTimer := 0.0\<rparr>
                        in if unitsSpawnedForCurrentType g2 \<ge> w_count currentUnitType
                           then g2\<lparr>currentUnitTypeIndex := currentUnitTypeIndex g2 + 1,
                                   unitsSpawnedForCurrentType := 0,
                                   waveSpawnTimer := 0.0\<rparr>
                           else g2)
                     else g1)
               else
                 (let g2 = g1\<lparr>isBetweenWaves := True, betweenWavesTimer := waveCooldown w\<rparr>
                  in if c + 1 < length (waves g2)
                     then g2\<lparr>currentWave := Some (c + 1)\<rparr>
                     else g2\<lparr>currentWave := waveList g2, waves := decayWaves (waves g2)\<rparr>))"

text \<open>The lane-end check made on the unit at index \<open>i\<close> after its update
  (\<^verbatim>\<open>Game::Update\<close>, the two branches inside the unit loop).\<close>

definition laneEnd :: "nat \<Rightarrow> Game \<Rightarrow> Game" where
  "laneEnd i g =
     (let u = units g ! i in
      if isPlayer u \<and> vx (position u) \<ge> vx (t_position (enemyTower g)) - 60
      then
        (let g1 = CreateAttackEffect (position u) (t_position (enemyTower g))
                    (g\<lparr>enemyTower := (enemyTower g)
                          \<lparr>t_currentHP := t_currentHP (enemyTower g) - damage u\<rparr>\<rparr>)
         in if t_currentHP (enemyTower g1) \<le> 0
            then g1\<lparr>enemyTower := (enemyTower g1)\<lparr>t_currentHP := 0, t_isAlive := False\<rparr>,
                    gameOver := True, winner := ''Player Wins!''\<rparr>
            else g1)
      else if \<not> isPlayer u \<and> vx (position u) \<le> vx (t_position (playerTower g)) + 60
      then
        (let g1 = CreateAttackEffect (position u) (t_position (playerTower g))
                    (g\<lparr>playerTower := (playerTower g)
                          \<lparr>t_currentHP := t_currentHP (playerTower g) - damage u\<rparr>\<rparr>)
         in if t_currentHP (playerTower g1) \<le> 0
            then g1\<lparr>playerTower := (playerTower g1)\<lparr>t_currentHP := 0, t_isAlive := False\<rparr>,
                    gameOver := True, winner := ''Enemy Wins!''\<rparr>
            else g1)
      else g)"

text \<open>What the unit loop does with a living unit at index \<open>i\<close>.\<close>

definition visitUnit :: "real \<Rightarrow> nat \<Rightarrow> Game \<Rightarrow> Game" where
  "visitUnit deltaTime i g = laneEnd i (g\<lparr>units := Unit_Update deltaTime i (units g)\<rparr>)"

text \<open>\<^verbatim>\<open>units.erase(it)\<close>.\<close>

definition eraseAt :: "nat \<Rightarrow> 'a list \<Rightarrow> 'a list" where
  "eraseAt i xs = take i xs @ drop (Suc i) xs"

lemma length_units_laneEnd [simp]: "length (units (laneEnd i g)) = length (units g)"
  by (simp add: laneEnd_def Let_def CreateAttackEffect_def)

lemma length_units_visitUnit [simp]: "length (units (visitUnit deltaTime i g)) = length (units g)"
  by (simp add: visitUnit_def)

text \<open>The unit loop of \<^verbatim>\<open>Game::Update\<close>, from the iterator at index \<open>i\<close>.\<close>

function unitLoop :: "real \<Rightarrow> nat \<Rightarrow> Game \<Rightarrow> Game" where
  "unitLoop deltaTime i g =
     (if i < length (units g)
      then (if isAlive (units g ! i)
            then unitLoop deltaTime (Suc i) (visitUnit deltaTime i g)
            else unitLoop deltaTime i (g\<lparr>units := eraseAt i (units g)\<rparr>))
      else g)"
  by pat_completeness auto
termination
  by (relation "measure (\<lambda>(deltaTime, i, g). length (units g) - i)")
    (auto simp: eraseAt_def)

declare unitLoop.simps [simp del]

text \<open>The blocks of \<^verbatim>\<open>Game::Update\<close> before and after the unit loop, one definition
  for each commented block of the source.\<close>

definition updateFreezeCooldown :: "real \<Rightarrow> Game \<Rightarrow> Game" where
  "updateFreezeCooldown deltaTime g =
     (if \<not> freezeAvailable g
      then (let g1 = g\<lparr>freezeCooldown := freezeCooldown g - deltaTime\<rparr>
            in if freezeCooldown g1 \<le> 0
               then g1\<lparr>freezeAvailable := True, freezeCooldown := 0.0\<rparr>
               else g1)
      else g)"

definition updateGameTimer :: "real \<Rightarrow> Game \<Rightarrow> Game" where
  "updateGameTimer deltaTime g =
     (let g1 = g\<lparr>gameTimer := gameTimer g - deltaTime\<rparr>
      in if gameTimer g1 \<le> 0
         then g1\<lparr>gameTimer := 0, gameOver := True, winner := ''Draw''\<rparr>
         else g1)"

definition updateElixir :: "real \<Rightarrow> Game \<Rightarrow> Game" where
  "updateElixir deltaTime g =
     (let g1 = g\<lparr>elixirTimer := elixirTimer g + deltaTime\<rparr>
      in if elixirTimer g1 \<ge> ELIXIR_RATE
         then g1\<lparr>playerElixir := (if playerElixir g1 < MAX_ELIXIR
                                   then playerElixir g1 + 1 else playerElixir g1),
                 enemyElixir := (if enemyElixir g1 < MAX_ELIXIR
                                  then enemyElixir g1 + 1 else enemyElixir g1),
                 elixirTimer := 0.0\<rparr>
         else g1)"

definition updateTowers :: "real \<Rightarrow> Game \<Rightarrow> Game" where
  "updateTowers deltaTime g =
     (let g1 = g\<lparr>playerTower := Tower_Update deltaTime (units g) (playerTower g)\<rparr>
      in g1\<lparr>enemyTower := Tower_Update deltaTime (units g1) (enemyTower g1)\<rparr>)"

definition updateProjectiles :: "real \<Rightarrow> Game \<Rightarrow> Game" where
  "updateProjectiles deltaTime g =
     g\<lparr>projectiles := filter active (map (Projectile_Update deltaTime) (projectiles g))\<rparr>"

text \<open>\<^verbatim>\<open>Game::Update(deltaTime)\<close>; \<open>enter\<close> and \<open>keyR\<close> are what
  \<^verbatim>\<open>IsKeyPressed(KEY_ENTER)\<close> and \<^verbatim>\<open>IsKeyPressed(KEY_R)\<close> return.\<close>

definition Game_Update :: "real \<Rightarrow> bool \<Rightarrow> bool \<Rightarrow> Game \<Rightarrow> Game" where
  "Game_Update deltaTime enter keyR g =
     (if currentState g = START_SCREEN
      then (if enter then g\<lparr>currentState := PLAYING\<rparr> else g)
      else if currentState g = GAME_OVER
      then (if keyR then (Reset g)\<lparr>currentState := PLAYING\<rparr> else g)
      else if gameOver g then g\<lparr>currentState := GAME_OVER\<rparr>
      else
        HandleWaveProgression deltaTime
          (HandleTowerAttacks
            (updateProjectiles deltaTime
              (unitLoop deltaTime 0
                (updateTowers deltaTime
                  (updateElixir deltaTime
                    (updateGameTimer deltaTime
                      (updateFreezeCooldown deltaTime g))))))))"

section \<open>Descriptions used in the statements\<close>

text \<open>The winner of a linear scan in which a later element replaces the current one when
  it compares before it.\<close>

definition champion :: "('a \<Rightarrow> 'a \<Rightarrow> bool) \<Rightarrow> 'a \<Rightarrow> 'a list \<Rightarrow> 'a" where
  "champion cmp h xs = foldl (\<lambda>h x. if cmp x h then x else h) h xs"

text \<open>The pairs that \<^verbatim>\<open>Tower::UpdateTargetQueue\<close> pushes, in the order of the pushes.\<close>

fun towerCandidates :: "Tower \<Rightarrow> Unit list \<Rightarrow> (nat \<times> real) list" where
  "towerCandidates t [] = []"
| "towerCandidates t (u # us) =
     (if isAlive u \<and> isPlayer u \<noteq> t_isPlayer t
      then (let distance = CalculateDistance (t_position t) (position u)
            in if distance < TOWER_RANGE
               then (uid u, distance) # towerCandidates t us
               else towerCandidates t us)
      else towerCandidates t us)"

text \<open>The fields of a unit that no other unit's update and no tower attack writes.\<close>

definition frame :: "Unit \<Rightarrow> nat \<times> Vector2 \<times> real \<times> bool" where
  "frame u = (uid u, position u, attackTimer u, isFrozen u)"

text \<open>Invariants of the unit loop for the units at address \<open>k\<close>: they stand at \<open>p\<close> with
  attack timer \<open>a\<close>, and those the loop has not reached yet (index \<open>i\<close> and up) are
  frozen.\<close>

definition keeps :: "nat \<Rightarrow> Vector2 \<Rightarrow> real \<Rightarrow> nat \<Rightarrow> Unit list \<Rightarrow> bool" where
  "keeps k p a i us =
     (\<forall>m<length us. uid (us ! m) = k \<longrightarrow>
        position (us ! m) = p \<and> attackTimer (us ! m) = a \<and> (i \<le> m \<longrightarrow> isFrozen (us ! m)))"

definition still :: "nat \<Rightarrow> Vector2 \<Rightarrow> real \<Rightarrow> Unit list \<Rightarrow> bool" where
  "still k p a us = (\<forall>u\<in>set us. uid u = k \<longrightarrow> position u = p \<and> attackTimer u = a)"

section \<open>Scenarios\<close>

text \<open>Concrete states on which the theorems below are evaluated.\<close>

text \<open>The first and the last wave with every composition entry spawned, on the tick
  before the cooldown starts.\<close>

definition wave1Done :: Game where
  "wave1Done = newGame\<lparr>currentState := PLAYING, currentUnitTypeIndex := 2\<rparr>"

definition wave8Done :: Game where
  "wave8Done =
     newGame\<lparr>currentState := PLAYING, currentWave := Some 7, currentUnitTypeIndex := 3\<rparr>"


text \<open>A unit that has walked to \<open>x\<close> and has the waypoints \<open>p\<close> left.\<close>

definition placed :: "Unit \<Rightarrow> real \<Rightarrow> real list \<Rightarrow> Unit" where
  "placed u x p =
     u\<lparr>position := \<lparr>vx = x, vy = 400\<rparr>,
       path := map (\<lambda>w. \<lparr>vx = w, vy = 400\<rparr>) p,
       currentTargetPos := (if p \<noteq> [] then \<lparr>vx = hd p, vy = 400\<rparr> else currentTargetPos u)\<rparr>"

text \<open>An enemy Knight with 60 hit points left, and a player Knight 20 units away from
  it whose attack is due; the player's tower is about to fire.\<close>

definition deadTargetGame :: Game where
  "deadTargetGame =
     newGame\<lparr>currentState := PLAYING,
       units := [(placed (newUnit 0 KNIGHT False) 200 [150, 100])\<lparr>currentHP := 60\<rparr>,
                 (placed (newUnit 1 KNIGHT True) 180 [200, 250])
                   \<lparr>target := Some 0, attackTimer := 1.19\<rparr>],
       playerTower := (newTower True)\<lparr>t_attackTimer := 0.99\<rparr>,
       nextUid := 2\<rparr>"

text \<open>The state of that tick when the controller reaches \<^verbatim>\<open>HandleTowerAttacks\<close>.\<close>

definition deadTargetMid :: Game where
  "deadTargetMid =
     updateProjectiles 0.02
       (unitLoop 0.02 0
         (updateTowers 0.02
           (updateElixir 0.02
             (updateGameTimer 0.02
               (updateFreezeCooldown 0.02 deadTargetGame)))))"

text \<open>An enemy Knight with 50 hit points left in range of the player's tower, which is
  about to fire.\<close>

definition weakEnemyGame :: Game where
  "weakEnemyGame =
     newGame\<lparr>currentState := PLAYING,
       units := [(placed (newUnit 0 KNIGHT False) 200 [150, 100])\<lparr>currentHP := 50\<rparr>],
       playerTower := (newTower True)\<lparr>t_attackTimer := 0.99\<rparr>,
       nextUid := 1\<rparr>"

text \<open>A player Wizard, its target (an enemy Archer) in range, and a second enemy Archer
  with 30 hit points left next to the target.\<close>

definition splashUnits :: "Unit list" where
  "splashUnits =
     [(placed (newUnit 0 WIZARD True) 500 [550, 600])\<lparr>target := Some 1\<rparr>,
      placed (newUnit 1 ARCHER False) 600 [550, 500],
      (placed (newUnit 2 ARCHER False) 620 [600, 550])\<lparr>currentHP := 30\<rparr>]"

text \<open>An enemy Knight and a player Knight on the lane, freeze available.\<close>

definition freezeGame :: Game where
  "freezeGame =
     newGame\<lparr>currentState := PLAYING,
       units := [placed (newUnit 0 KNIGHT False) 700 [650, 600],
                 placed (newUnit 1 KNIGHT True) 400 [450, 500]],
       nextUid := 2\<rparr>"

text \<open>A frozen enemy Knight at the end of its path, 54 units from the player's tower.\<close>

definition laneEndGame :: Game where
  "laneEndGame =
     newGame\<lparr>currentState := PLAYING,
       units := [(placed (newUnit 0 KNIGHT False) 104 [])
                   \<lparr>isFrozen := True, freezeTimer := 3\<rparr>],
       nextUid := 1\<rparr>"

text \<open>A player Knight with two undamaged enemy Knights 25 and 20 units away, the farther
  one earlier in the collection; both are in range of the player's tower.\<close>

definition tieUnits :: "Unit list" where
  "tieUnits =
     [placed (newUnit 0 KNIGHT True) 300 [350, 400],
      placed (newUnit 1 KNIGHT False) 325 [300, 250],
      placed (newUnit 2 KNIGHT False) 320 [300, 250]]"

text \<open>A player Knight with three enemy Knights 20, 28 and 36 units away that have 300,
  200 and 100 hit points.\<close>

definition chainUnits :: "Unit list" where
  "chainUnits =
     [placed (newUnit 0 KNIGHT True) 300 [350, 400],
      placed (newUnit 1 KNIGHT False) 320 [300, 250],
      (placed (newUnit 2 KNIGHT False) 328 [300, 250])\<lparr>currentHP := 200\<rparr>,
      (placed (newUnit 3 KNIGHT False) 336 [300, 250])\<lparr>currentHP := 100\<rparr>]"

text \<open>A player Archer with a damaged enemy Knight 130 units away and an undamaged one
  50 units away.\<close>

definition farUnits :: "Unit list" where
  "farUnits =
     [placed (newUnit 0 ARCHER True) 200 [250, 300],
      (placed (newUnit 1 KNIGHT False) 330 [300, 250])\<lparr>currentHP := 100\<rparr>,
      placed (newUnit 2 KNIGHT False) 250 [200, 150]]"

text \<open>The same units, the Archer holding the farther Knight as its target.\<close>

definition stickyUnits :: "Unit list" where
  "stickyUnits = farUnits[0 := (farUnits ! 0)\<lparr>target := Some 1\<rparr>]"

section \<open>Properties\<close>

subsection \<open>Facts for evaluating the model\<close>

text \<open>Every unit and both towers stand on the lane, so distances are differences of
  \<open>x\<close> coordinates.\<close>

lemma CalculateDistance_lane:
  "vy a = vy b \<Longrightarrow> CalculateDistance a b = \<bar>vx a - vx b\<bar>"
  by (simp add: CalculateDistance_def)

lemma float_to_int_numeral [simp]: "float_to_int (numeral n) = numeral n"
  by (simp add: float_to_int_def)

lemma pathRight_150:
  "pathRight 150 = map (\<lambda>k. \<lparr>vx = real_of_int (150 + 50 * int k), vy = 400\<rparr>) [0..<20]"
  by (simp add: pathRight.simps consts_defs upt_rec)

lemma newUnit_player:
  "newUnit k ty True =
     \<lparr>uid = k, utype = ty, position = \<lparr>vx = 150, vy = 400\<rparr>,
      currentHP = s_hp (getUnitStats ty), maxHP = s_hp (getUnitStats ty),
      damage = s_damage (getUnitStats ty), speed = s_speed (getUnitStats ty),
      attackRate = s_attackRate (getUnitStats ty), attackRange = s_range (getUnitStats ty),
      isRanged = s_isRanged (getUnitStats ty), attackTimer = 0, isPlayer = True,
      isAlive = True, target = None, isFrozen = False, freezeTimer = 0,
      path = pathRight 150, currentTargetPos = \<lparr>vx = 150, vy = 400\<rparr>\<rparr>"
  by (simp add: newUnit_def generatePath_def Let_def consts_defs pathRight_150 upt_rec)

subsection \<open>Spawning a player unit\<close>

text \<open>
  Claim C6. \<^verbatim>\<open>SpawnUnit(type)\<close> called while Playing with player elixir at least the
  cost of the type deducts exactly the cost and appends exactly one unit, and changes
  nothing else; the new unit is alive, on the player's side, of that type, at the full
  health of the statistics table, at the player's spawn point, with the 20 waypoints
  150, 200, ..., 1100 that lead to the enemy tower at 1150. Called while not Playing or
  with less elixir than the cost, it returns the state unchanged. A Knight costs 3 and
  has 300 hit points.
\<close>

theorem SpawnUnit_spec:
  "(currentState g = PLAYING \<and> s_cost (GetUnitStats ty) \<le> playerElixir g \<longrightarrow>
      playerElixir (SpawnUnit ty g) = playerElixir g - s_cost (GetUnitStats ty)
      \<and> units (SpawnUnit ty g) = units g @ [newUnit (nextUid g) ty True]
      \<and> SpawnUnit ty g = g\<lparr>units := units (SpawnUnit ty g),
                              nextUid := nextUid g + 1,
                              playerElixir := playerElixir (SpawnUnit ty g)\<rparr>)
   \<and> (currentState g \<noteq> PLAYING \<or> playerElixir g < s_cost (GetUnitStats ty) \<longrightarrow>
      SpawnUnit ty g = g)
   \<and> isAlive (newUnit k ty True) \<and> isPlayer (newUnit k ty True)
   \<and> utype (newUnit k ty True) = ty
   \<and> currentHP (newUnit k ty True) = s_hp (GetUnitStats ty)
   \<and> maxHP (newUnit k ty True) = s_hp (GetUnitStats ty)
   \<and> position (newUnit k ty True) = \<lparr>vx = 150, vy = 400\<rparr>
   \<and> path (newUnit k ty True) =
       map (\<lambda>n. \<lparr>vx = real_of_int (150 + 50 * int n), vy = 400\<rparr>) [0..<20]
   \<and> s_cost (GetUnitStats KNIGHT) = 3 \<and> s_hp (GetUnitStats KNIGHT) = 300"
  by (cases ty) (simp_all add: SpawnUnit_def Let_def newUnit_player pathRight_150)

theorem SpawnUnit_spec_witness:
  "playerElixir (SpawnUnit KNIGHT (newGame\<lparr>currentState := PLAYING\<rparr>)) = 2
   \<and> length (units (SpawnUnit KNIGHT (newGame\<lparr>currentState := PLAYING\<rparr>))) = 1
   \<and> currentHP (hd (units (SpawnUnit KNIGHT (newGame\<lparr>currentState := PLAYING\<rparr>)))) = 300
   \<and> SpawnUnit GIANT (newGame\<lparr>currentState := PLAYING, playerElixir := 4\<rparr>)
       = newGame\<lparr>currentState := PLAYING, playerElixir := 4\<rparr>
   \<and> SpawnUnit KNIGHT newGame = newGame"
  using SpawnUnit_spec [of "newGame\<lparr>currentState := PLAYING\<rparr>" KNIGHT 0]
    SpawnUnit_spec [of "newGame\<lparr>currentState := PLAYING, playerElixir := 4\<rparr>" GIANT 0]
    SpawnUnit_spec [of newGame KNIGHT 0]
  by (simp add: newGame_def)

subsection \<open>The wave sequencer\<close>

lemmas wave_ev = HandleWaveProgression_def newGame_def InitializeWaves_def mkWave_def
  decayWaves_def waveList_def Let_def

lemma decay_iter:
  "((\<lambda>r::real. max 2 (r * 0.9)) ^^ Suc n) r = max 2 (r * 0.9 ^ Suc n)"
proof (induction n)
  case 0
  show ?case by simp
next
  case (Suc n)
  have "((\<lambda>r::real. max 2 (r * 0.9)) ^^ Suc (Suc n)) r
          = max 2 (max 2 (r * 0.9 ^ Suc n) * 0.9)"
    using Suc by simp
  also have "\<dots> = max 2 (r * 0.9 ^ Suc (Suc n))"
    by (simp add: max_def)
  finally show ?case .
qed

lemma decayWaves_iter:
  "(decayWaves ^^ n) ws =
     map (\<lambda>w. w\<lparr>spawnRate := ((\<lambda>r. max 2 (r * 0.9)) ^^ n) (spawnRate w)\<rparr>) ws"
proof (induction n)
  case 0
  show ?case by (simp add: map_idI)
next
  case (Suc n)
  then show ?case by (simp add: decayWaves_def)
qed

lemma rate_reaches_floor: "\<exists>N. \<forall>n\<ge>N. max 2 (r * 0.9 ^ Suc n) = (2::real)"
proof (cases "r \<le> 2")
  case True
  have "r * 0.9 ^ Suc n \<le> 2" for n
  proof (cases "0 \<le> r")
    case True
    have "(0.9::real) ^ Suc n \<le> 1"
      by (rule power_le_one) simp_all
    then have "r * 0.9 ^ Suc n \<le> r * 1"
      by (rule mult_left_mono) (rule True)
    with \<open>r \<le> 2\<close> show ?thesis by simp
  next
    case False
    then have "r * 0.9 ^ Suc n \<le> 0"
      by (simp add: mult_le_0_iff)
    then show ?thesis by simp
  qed
  then have "max 2 (r * 0.9 ^ Suc n) = 2" for n
    by (rule max_absorb1)
  then show ?thesis by blast
next
  case False
  then have rpos: "0 < r" by simp
  then have "0 < 2 / r" by simp
  then obtain N where N: "(0.9::real) ^ N < 2 / r"
    using real_arch_pow_inv [of "2 / r" "0.9"] by auto
  have "r * 0.9 ^ Suc n \<le> 2" if "N \<le> n" for n
  proof -
    have "(0.9::real) ^ Suc n \<le> 0.9 ^ N"
      using that by (intro power_decreasing) simp_all
    then have "(0.9::real) ^ Suc n < 2 / r" using N by linarith
    then have "r * 0.9 ^ Suc n < 2"
      using rpos by (simp add: pos_less_divide_eq mult.commute)
    then show ?thesis by simp
  qed
  then have "max 2 (r * 0.9 ^ Suc n) = 2" if "N \<le> n" for n
    using that by (intro max_absorb1) blast
  then show ?thesis by blast
qed

lemma rates_reach_floor:
  "\<exists>N. \<forall>n\<ge>N. \<forall>w\<in>set ((decayWaves ^^ Suc n) ws). spawnRate w = 2"
proof (induction ws)
  case Nil
  show ?case by (simp add: decayWaves_iter del: funpow.simps)
next
  case (Cons w ws)
  then obtain N1 where N1: "\<forall>n\<ge>N1. \<forall>w\<in>set ((decayWaves ^^ Suc n) ws). spawnRate w = 2"
    by blast
  obtain N2 where N2: "\<forall>n\<ge>N2. max 2 (spawnRate w * 0.9 ^ Suc n) = 2"
    using rate_reaches_floor by blast
  have "\<forall>n\<ge>max N1 N2. \<forall>v\<in>set ((decayWaves ^^ Suc n) (w # ws)). spawnRate v = 2"
  proof (intro allI impI ballI)
    fix n v
    assume n: "max N1 N2 \<le> n" and v: "v \<in> set ((decayWaves ^^ Suc n) (w # ws))"
    from v have "v = w\<lparr>spawnRate := max 2 (spawnRate w * 0.9 ^ Suc n)\<rparr>
                 \<or> v \<in> set ((decayWaves ^^ Suc n) ws)"
      by (simp only: decayWaves_iter decay_iter) auto
    then show "spawnRate v = 2"
    proof
      assume "v = w\<lparr>spawnRate := max 2 (spawnRate w * 0.9 ^ Suc n)\<rparr>"
      moreover have "N2 \<le> n" using n by simp
      ultimately show ?thesis using N2 by simp
    next
      assume "v \<in> set ((decayWaves ^^ Suc n) ws)"
      moreover have "N1 \<le> n" using n by simp
      ultimately show ?thesis using N1 by blast
    qed
  qed
  then show ?case ..
qed

text \<open>
  Claim C7. On the tick on which the last wave of the chain has spawned all its entries
  the sequencer wraps to the first wave and replaces every wave's \<open>spawnRate\<close> by
  \<open>max 2.0 (spawnRate * 0.9)\<close>; on every other tick the chain is left as it is. Under
  repeated wraps the intervals never drop below 2.0 after the first wrap, are
  non-increasing when they start at 2.0 or above (as all eight initial intervals do), and
  from some wrap on are all equal to 2.0.
\<close>

theorem wave_decay:
  "(currentWave g = Some c \<and> \<not> gameOver g \<and> \<not> isBetweenWaves g
      \<and> length (waveUnits (waves g ! c)) \<le> currentUnitTypeIndex g
      \<and> Suc c = length (waves g) \<longrightarrow>
        waves (HandleWaveProgression dt g) = decayWaves (waves g)
        \<and> currentWave (HandleWaveProgression dt g) = Some 0)
   \<and> (currentWave g = None \<or> gameOver g \<or> isBetweenWaves g
        \<or> currentUnitTypeIndex g < length (waveUnits (waves g ! the (currentWave g)))
        \<or> Suc (the (currentWave g)) < length (waves g) \<longrightarrow>
        waves (HandleWaveProgression dt g) = waves g)
   \<and> map spawnRate (decayWaves ws) = map (\<lambda>r. max 2 (r * 0.9)) (map spawnRate ws)
   \<and> (\<forall>w\<in>set ((decayWaves ^^ Suc n) ws). 2 \<le> spawnRate w)
   \<and> ((\<forall>w\<in>set ws. 2 \<le> spawnRate w) \<longrightarrow>
        (\<forall>i<length ws. spawnRate ((decayWaves ^^ Suc n) ws ! i)
                          \<le> spawnRate ((decayWaves ^^ n) ws ! i)))
   \<and> (\<exists>N. \<forall>m\<ge>N. \<forall>w\<in>set ((decayWaves ^^ m) ws). spawnRate w = 2)"
proof (intro conjI)
  show "currentWave g = Some c \<and> \<not> gameOver g \<and> \<not> isBetweenWaves g
      \<and> length (waveUnits (waves g ! c)) \<le> currentUnitTypeIndex g
      \<and> Suc c = length (waves g) \<longrightarrow>
        waves (HandleWaveProgression dt g) = decayWaves (waves g)
        \<and> currentWave (HandleWaveProgression dt g) = Some 0"
    by (auto simp: HandleWaveProgression_def Let_def waveList_def)
  show "currentWave g = None \<or> gameOver g \<or> isBetweenWaves g
        \<or> currentUnitTypeIndex g < length (waveUnits (waves g ! the (currentWave g)))
        \<or> Suc (the (currentWave g)) < length (waves g) \<longrightarrow>
        waves (HandleWaveProgression dt g) = waves g"
    by (auto simp: HandleWaveProgression_def Let_def split: option.splits)
  show "map spawnRate (decayWaves ws) = map (\<lambda>r. max 2 (r * 0.9)) (map spawnRate ws)"
    by (simp add: decayWaves_def)
  show "\<forall>w\<in>set ((decayWaves ^^ Suc n) ws). 2 \<le> spawnRate w"
    by (simp only: decayWaves_iter decay_iter) auto
  show "(\<forall>w\<in>set ws. 2 \<le> spawnRate w) \<longrightarrow>
        (\<forall>i<length ws. spawnRate ((decayWaves ^^ Suc n) ws ! i)
                          \<le> spawnRate ((decayWaves ^^ n) ws ! i))"
  proof (intro impI allI)
    fix i
    assume ge: "\<forall>w\<in>set ws. 2 \<le> spawnRate w" and i: "i < length ws"
    then have r: "2 \<le> spawnRate (ws ! i)" by simp
    show "spawnRate ((decayWaves ^^ Suc n) ws ! i) \<le> spawnRate ((decayWaves ^^ n) ws ! i)"
    proof (cases n)
      case 0
      then show ?thesis using r i by (simp add: decayWaves_def)
    next
      case (Suc k)
      have "spawnRate (ws ! i) * 0.9 ^ Suc (Suc k) \<le> spawnRate (ws ! i) * 0.9 ^ Suc k"
        using r by simp
      then show ?thesis
        using i unfolding Suc by (simp only: decayWaves_iter decay_iter) (simp add: max_def)
    qed
  qed
  obtain N where N: "\<forall>n\<ge>N. \<forall>w\<in>set ((decayWaves ^^ Suc n) ws). spawnRate w = 2"
    using rates_reach_floor by blast
  have "\<forall>m\<ge>Suc N. \<forall>w\<in>set ((decayWaves ^^ m) ws). spawnRate w = 2"
  proof (intro allI impI)
    fix m assume "Suc N \<le> m"
    then obtain n where "m = Suc n" "N \<le> n" by (cases m) auto
    then show "\<forall>w\<in>set ((decayWaves ^^ m) ws). spawnRate w = 2" using N by blast
  qed
  then show "\<exists>N. \<forall>m\<ge>N. \<forall>w\<in>set ((decayWaves ^^ m) ws). spawnRate w = 2" ..
qed

theorem wave_decay_witness:
  "map spawnRate (waves (HandleWaveProgression 0.02 wave8Done))
     = [3.6, 3.15, 3.15, 3.15, 2.7, 2.7, 2.25, 2.25]
   \<and> map spawnRate (waves (HandleWaveProgression 0.02
       (newGame\<lparr>currentState := PLAYING, currentWave := Some 6, currentUnitTypeIndex := 3\<rparr>)))
     = [4, 3.5, 3.5, 3.5, 3, 3, 2.5, 2.5]
   \<and> map spawnRate InitializeWaves = [4, 3.5, 3.5, 3.5, 3, 3, 2.5, 2.5]
   \<and> spawnRate ((decayWaves ^^ Suc 0) InitializeWaves ! 0)
       \<le> spawnRate ((decayWaves ^^ 0) InitializeWaves ! 0)"
proof -
  have ge: "\<forall>w\<in>set InitializeWaves. 2 \<le> spawnRate w"
    by (simp add: InitializeWaves_def mkWave_def)
  have len: "0 < length InitializeWaves"
    by (simp add: InitializeWaves_def)
  have mono: "spawnRate ((decayWaves ^^ Suc 0) InitializeWaves ! 0)
                \<le> spawnRate ((decayWaves ^^ 0) InitializeWaves ! 0)"
    using wave_decay [of wave8Done 7 "0.02" InitializeWaves 0] ge len by blast
  have wrap: "waves (HandleWaveProgression 0.02 wave8Done) = decayWaves (waves wave8Done)"
    using wave_decay [of wave8Done 7 "0.02" InitializeWaves 0]
    by (simp add: wave8Done_def newGame_def InitializeWaves_def mkWave_def)
  have keep: "waves (HandleWaveProgression 0.02
       (newGame\<lparr>currentState := PLAYING, currentWave := Some 6, currentUnitTypeIndex := 3\<rparr>))
       = waves (newGame\<lparr>currentState := PLAYING, currentWave := Some 6,
                          currentUnitTypeIndex := 3\<rparr>)"
    using wave_decay [of "newGame\<lparr>currentState := PLAYING, currentWave := Some 6,
                                   currentUnitTypeIndex := 3\<rparr>" 6 "0.02" InitializeWaves 0]
    by (simp add: newGame_def InitializeWaves_def mkWave_def)
  show ?thesis
    using mono
    by (simp only: wrap keep)
       (simp add: wave8Done_def newGame_def InitializeWaves_def mkWave_def decayWaves_def)
qed

text \<open>
  Claim C8, as the code has it. The current-wave pointer moves to its successor on the
  tick on which the cooldown starts (wrapping to the first wave after the last one), not
  when the cooldown ends. While in cooldown and the match is not over, each tick takes
  the elapsed time off the countdown; when the countdown reaches 0 or below the
  sequencer returns to spawning with the spawn timer and both per-wave counters at 0,
  and the pointer stays where it is. After wave 8 has finished spawning the pointer is at
  wave 1 from the start of the cooldown on.
\<close>

theorem wave_cooldown:
  "currentWave g = Some c \<and> \<not> gameOver g \<longrightarrow>
     (isBetweenWaves g \<and> 0 < betweenWavesTimer g - dt \<longrightarrow>
        HandleWaveProgression dt g = g\<lparr>betweenWavesTimer := betweenWavesTimer g - dt\<rparr>)
   \<and> (isBetweenWaves g \<and> betweenWavesTimer g - dt \<le> 0 \<longrightarrow>
        HandleWaveProgression dt g =
          g\<lparr>betweenWavesTimer := betweenWavesTimer g - dt, isBetweenWaves := False,
            waveSpawnTimer := 0, currentUnitTypeIndex := 0,
            unitsSpawnedForCurrentType := 0\<rparr>)
   \<and> (\<not> isBetweenWaves g \<and> length (waveUnits (waves g ! c)) \<le> currentUnitTypeIndex g \<longrightarrow>
        isBetweenWaves (HandleWaveProgression dt g)
        \<and> betweenWavesTimer (HandleWaveProgression dt g) = waveCooldown (waves g ! c)
        \<and> currentWave (HandleWaveProgression dt g) =
            (if Suc c < length (waves g) then Some (Suc c) else waveList g))"
  by (simp add: HandleWaveProgression_def Let_def waveList_def)

theorem wave_cooldown_witness:
  "currentWave (HandleWaveProgression 0.02 wave8Done) = Some 0
   \<and> betweenWavesTimer (HandleWaveProgression 0.02 wave8Done) = 10
   \<and> HandleWaveProgression 4 (HandleWaveProgression 0.02 wave8Done)
       = (HandleWaveProgression 0.02 wave8Done)\<lparr>betweenWavesTimer := 6\<rparr>
   \<and> currentWave (HandleWaveProgression 10 (HandleWaveProgression 0.02 wave8Done)) = Some 0
   \<and> \<not> isBetweenWaves (HandleWaveProgression 10 (HandleWaveProgression 0.02 wave8Done))
   \<and> waveNumber (waves (HandleWaveProgression 10 (HandleWaveProgression 0.02 wave8Done)) ! 0) = 1"
  using wave_cooldown [of wave8Done 7 "0.02"]
    wave_cooldown [of "HandleWaveProgression 0.02 wave8Done" 0 4]
    wave_cooldown [of "HandleWaveProgression 0.02 wave8Done" 0 10]
  by (simp add: wave8Done_def wave_ev)

text \<open>The claim C8 as stated fails: the pointer goes from wave 1 to wave 2 on the tick
  that starts the cooldown, with 10 seconds still on the countdown, and does not move on
  the tick on which the countdown runs out.\<close>

theorem pointer_moves_at_cooldown_start:
  "currentWave wave1Done = Some 0 \<and> \<not> isBetweenWaves wave1Done
   \<and> isBetweenWaves (HandleWaveProgression 0.02 wave1Done)
   \<and> betweenWavesTimer (HandleWaveProgression 0.02 wave1Done) = 10
   \<and> currentWave (HandleWaveProgression 0.02 wave1Done) = Some 1
   \<and> \<not> isBetweenWaves (HandleWaveProgression 10 (HandleWaveProgression 0.02 wave1Done))
   \<and> currentWave (HandleWaveProgression 10 (HandleWaveProgression 0.02 wave1Done)) = Some 1"
  by (simp add: wave1Done_def wave_ev)

subsection \<open>Reset\<close>



subsection \<open>More facts for evaluating the model\<close>

lemma FollowPath_lane:
  "vy (currentTargetPos u) = vy (position u) \<Longrightarrow>
   FollowPath deltaTime u =
     (if path u = [] then u
      else if \<bar>vx (currentTargetPos u) - vx (position u)\<bar> < 5
      then u\<lparr>path := tl (path u),
             currentTargetPos := (if tl (path u) \<noteq> [] then hd (tl (path u))
                                  else currentTargetPos u)\<rparr>
      else u\<lparr>position :=
               \<lparr>vx = vx (position u)
                      + (vx (currentTargetPos u) - vx (position u))
                        / \<bar>vx (currentTargetPos u) - vx (position u)\<bar> * speed u * deltaTime,
                vy = vy (position u)\<rparr>\<rparr>)"
  by (simp add: FollowPath_def Let_def)

lemmas unit_ev = placed_def newUnit_def generatePath_def consts_defs Let_def
  Unit_Update_def targetAlive_def unitAt_def hpAt_def modifyAt_def Attack_def
  FindTargetWithPriority_def unitTargetLess_def insertion_step_def CalculateDistance_lane
  FollowPath_lane signed_divide_int_def

lemmas tick_ev = unit_ev newGame_def newTower_def laneEnd_def visitUnit_def
  CreateAttackEffect_def newProjectile_def unitLoop.simps eraseAt_def
  Game_Update_def updateFreezeCooldown_def updateGameTimer_def updateElixir_def updateTowers_def updateProjectiles_def Tower_Update_def UpdateTargetQueue_def queueUnit_def pq_push_def
  push_heap.simps TowerTargetPriority_def HandleTowerAttacks_def towerAttack_def
  towerOf_def setTower_def CanAttack_def GetBestTarget_def ResetAttackTimer_def
  Projectile_Update_def HandleWaveProgression_def InitializeWaves_def mkWave_def

subsection \<open>Freeze\<close>

lemma frame_simps [simp]:
  "frame (u\<lparr>currentHP := h\<rparr>) = frame u"
  "frame (u\<lparr>isAlive := b\<rparr>) = frame u"
  "frame (u\<lparr>target := t\<rparr>) = frame u"
  by (simp_all add: frame_def)

lemma frame_list_update:
  "frame v = frame (xs ! j) \<Longrightarrow> m < length xs \<Longrightarrow> frame (xs[j := v] ! m) = frame (xs ! m)"
  by (cases "m = j") simp_all

lemma frame_map:
  "(\<And>u. frame (f u) = frame u) \<Longrightarrow> m < length xs \<Longrightarrow> frame (map f xs ! m) = frame (xs ! m)"
  by simp

lemma frame_Attack:
  assumes m: "m < length us"
  shows "frame (Attack j t us ! m) = frame (us ! m)"
proof (cases "targetAlive us t")
  case False
  then show ?thesis by (simp add: Attack_def)
next
  case True
  define k where "k = the t"
  define me where "me = us ! j"
  define tpos where "tpos = position (the (unitAt us k))"
  define us1 where "us1 = modifyAt k (\<lambda>u. u\<lparr>currentHP := currentHP u - damage me\<rparr>) us"
  define us2 where "us2 = (if utype me = WIZARD
                   then map (\<lambda>u. if isAlive u \<and> uid u \<noteq> k \<and> isPlayer u \<noteq> isPlayer me
                                     \<and> CalculateDistance (position u) tpos < 60.0
                                  then u\<lparr>currentHP := currentHP u - damage me sdiv 2\<rparr>
                                  else u) us1
                   else us1)"
  define us3 where "us3 = modifyAt k (\<lambda>u. u\<lparr>isAlive := False\<rparr>) us2"
  have l1: "length us1 = length us" by (simp add: us1_def modifyAt_def)
  have l2: "length us2 = length us" by (simp add: us2_def l1)
  have l3: "length us3 = length us" by (simp add: us3_def modifyAt_def l2)
  have f1: "frame (us1 ! n) = frame (us ! n)" if "n < length us" for n
    unfolding us1_def modifyAt_def using that by (intro frame_map) simp_all
  have f2: "frame (us2 ! n) = frame (us ! n)" if "n < length us" for n
  proof -
    have "frame (us2 ! n) = frame (us1 ! n)"
      unfolding us2_def using that l1 by (simp add: frame_map)
    with f1 that show ?thesis by simp
  qed
  have f3: "frame (us3 ! n) = frame (us ! n)" if "n < length us" for n
  proof -
    have "frame (us3 ! n) = frame (us2 ! n)"
      unfolding us3_def modifyAt_def using that l2 by (intro frame_map) simp_all
    with f2 that show ?thesis by simp
  qed
  have res: "Attack j t us = (if hpAt us2 k \<le> 0 then us3[j := (us3 ! j)\<lparr>target := None\<rparr>] else us2)"
    unfolding Attack_def Let_def k_def me_def tpos_def us1_def us2_def us3_def
    using True by (simp only: not_True_eq_False if_False)
  show ?thesis
  proof (cases "hpAt us2 k \<le> 0")
    case True
    have "frame (us3[j := (us3 ! j)\<lparr>target := None\<rparr>] ! m) = frame (us3 ! m)"
      using m l3 by (intro frame_list_update) simp_all
    with f3 m True res show ?thesis by simp
  next
    case False
    with f2 m res show ?thesis by simp
  qed
qed

lemma frame_FindTarget:
  "m < length us \<Longrightarrow> frame (FindTargetWithPriority j us ! m) = frame (us ! m)"
  by (simp add: FindTargetWithPriority_def Let_def frame_list_update)

lemma uid_FollowPath [simp]: "uid (FollowPath dt u) = uid u"
  by (simp add: FollowPath_def Let_def)

lemma Unit_Update_other:
  assumes "m < length us" "m \<noteq> j"
  shows "frame (Unit_Update dt j us ! m) = frame (us ! m)"
proof -
  note a = frame_Attack and f = frame_FindTarget
  have lf: "length (FindTargetWithPriority j us) = length us"
    by (simp add: FindTargetWithPriority_def Let_def)
  show ?thesis
    using assms
    by (simp add: Unit_Update_def Let_def a f lf)
qed

lemma length_FindTarget [simp]: "length (FindTargetWithPriority j us) = length us"
  by (simp add: FindTargetWithPriority_def Let_def)

lemma uid_Attack [simp]: "m < length us \<Longrightarrow> uid (Attack j t us ! m) = uid (us ! m)"
  using frame_Attack [of m us j t] by (simp add: frame_def)

lemma uid_FindTarget [simp]:
  "m < length us \<Longrightarrow> uid (FindTargetWithPriority j us ! m) = uid (us ! m)"
  using frame_FindTarget [of m us j] by (simp add: frame_def)

lemma length_Attack [simp]: "length (Attack j t us) = length us"
  by (simp add: Attack_def Let_def modifyAt_def)

lemma uid_list_update:
  "uid v = uid (xs ! j) \<Longrightarrow> m < length xs \<Longrightarrow> uid (xs[j := v] ! m) = uid (xs ! m)"
  by (cases "m = j") simp_all

lemma uid_Unit_Update:
  "m < length us \<Longrightarrow> uid (Unit_Update dt j us ! m) = uid (us ! m)"
  by (simp add: Unit_Update_def Let_def uid_list_update)

lemma Unit_Update_frozen_self:
  "j < length us \<Longrightarrow> isAlive (us ! j) \<Longrightarrow> isFrozen (us ! j) \<Longrightarrow>
   uid (Unit_Update dt j us ! j) = uid (us ! j)
   \<and> position (Unit_Update dt j us ! j) = position (us ! j)
   \<and> attackTimer (Unit_Update dt j us ! j) = attackTimer (us ! j)"
  by (simp add: Unit_Update_def Let_def)

lemma units_visitUnit: "units (visitUnit dt i g) = Unit_Update dt i (units g)"
  by (simp add: visitUnit_def laneEnd_def Let_def CreateAttackEffect_def)


lemma keeps_visit:
  assumes inv: "keeps k p a i us" and i: "i < length us" and al: "isAlive (us ! i)"
  shows "keeps k p a (Suc i) (Unit_Update dt i us)"
  unfolding keeps_def
proof (intro allI impI)
  fix m
  assume m: "m < length (Unit_Update dt i us)" and k: "uid (Unit_Update dt i us ! m) = k"
  then have ml: "m < length us" by simp
  show "position (Unit_Update dt i us ! m) = p \<and> attackTimer (Unit_Update dt i us ! m) = a
        \<and> (Suc i \<le> m \<longrightarrow> isFrozen (Unit_Update dt i us ! m))"
  proof (cases "m = i")
    case False
    from Unit_Update_other [OF ml False, of dt]
    have eq: "uid (Unit_Update dt i us ! m) = uid (us ! m)"
      "position (Unit_Update dt i us ! m) = position (us ! m)"
      "attackTimer (Unit_Update dt i us ! m) = attackTimer (us ! m)"
      "isFrozen (Unit_Update dt i us ! m) = isFrozen (us ! m)"
      by (simp_all add: frame_def)
    with k inv ml show ?thesis unfolding keeps_def by auto
  next
    case True
    show ?thesis
    proof (cases "isFrozen (us ! i)")
      case fr: True
      from Unit_Update_frozen_self [OF i al fr, of dt] k True inv i
      show ?thesis unfolding keeps_def by auto
    next
      case nf: False
      have "uid (Unit_Update dt i us ! i) = uid (us ! i)"
        using i by (rule uid_Unit_Update)
      with k True have "uid (us ! i) = k" by simp
      with inv i have "isFrozen (us ! i)" unfolding keeps_def by auto
      with nf show ?thesis by simp
    qed
  qed
qed

lemma keeps_erase:
  assumes inv: "keeps k p a i us" and i: "i < length us"
  shows "keeps k p a i (eraseAt i us)"
  unfolding keeps_def
proof (intro allI impI)
  fix m
  assume m: "m < length (eraseAt i us)" and k: "uid (eraseAt i us ! m) = k"
  have len: "length (eraseAt i us) = length us - 1" using i by (simp add: eraseAt_def)
  have nth: "eraseAt i us ! m = (if m < i then us ! m else us ! Suc m)"
    using i m len by (auto simp: eraseAt_def nth_append min_def)
  show "position (eraseAt i us ! m) = p \<and> attackTimer (eraseAt i us ! m) = a
        \<and> (i \<le> m \<longrightarrow> isFrozen (eraseAt i us ! m))"
  proof (cases "m < i")
    case True
    with nth k inv i show ?thesis unfolding keeps_def by auto
  next
    case False
    then have s: "eraseAt i us ! m = us ! Suc m" "Suc m < length us" "i \<le> Suc m"
      using nth m len by auto
    with k inv show ?thesis unfolding keeps_def by auto
  qed
qed

lemma keeps_unitLoop:
  "keeps k p a i (units g) \<Longrightarrow> keeps k p a (length (units (unitLoop dt i g))) (units (unitLoop dt i g))"
proof (induction dt i g rule: unitLoop.induct)
  case (1 dt i g)
  show ?case
  proof (cases "i < length (units g)")
    case False
    then have "unitLoop dt i g = g" by (subst unitLoop.simps) simp
    with "1.prems" show ?thesis by (auto simp: keeps_def)
  next
    case il: True
    show ?thesis
    proof (cases "isAlive (units g ! i)")
      case True
      have unf: "unitLoop dt i g = unitLoop dt (Suc i) (visitUnit dt i g)"
        using il True by (subst unitLoop.simps) simp
      have "keeps k p a (Suc i) (units (visitUnit dt i g))"
        using keeps_visit [OF "1.prems" il True] by (simp add: units_visitUnit)
      from "1.IH"(1) [OF il True this] show ?thesis by (simp add: unf)
    next
      case False
      have unf: "unitLoop dt i g = unitLoop dt i (g\<lparr>units := eraseAt i (units g)\<rparr>)"
        using il False by (subst unitLoop.simps) simp
      have "keeps k p a i (units (g\<lparr>units := eraseAt i (units g)\<rparr>))"
        using keeps_erase [OF "1.prems" il] by simp
      from "1.IH"(2) [OF il False this] show ?thesis by (simp add: unf)
    qed
  qed
qed

lemma units_stages [simp]:
  "units (updateFreezeCooldown dt g) = units g"
  "units (updateGameTimer dt g) = units g"
  "units (updateElixir dt g) = units g"
  "units (updateTowers dt g) = units g"
  "units (updateProjectiles dt g) = units g"
  by (simp_all add: updateFreezeCooldown_def updateGameTimer_def updateElixir_def
        updateTowers_def updateProjectiles_def Let_def)

lemma nextUid_stages [simp]:
  "nextUid (updateFreezeCooldown dt g) = nextUid g"
  "nextUid (updateGameTimer dt g) = nextUid g"
  "nextUid (updateElixir dt g) = nextUid g"
  "nextUid (updateTowers dt g) = nextUid g"
  "nextUid (updateProjectiles dt g) = nextUid g"
  "nextUid (visitUnit dt i g) = nextUid g"
  "nextUid (HandleTowerAttacks g) = nextUid g"
  by (simp_all add: updateFreezeCooldown_def updateGameTimer_def updateElixir_def
        updateTowers_def updateProjectiles_def visitUnit_def laneEnd_def
        CreateAttackEffect_def HandleTowerAttacks_def towerAttack_def towerOf_def
        setTower_def Let_def split: option.splits)

lemma nextUid_unitLoop [simp]: "nextUid (unitLoop dt i g) = nextUid g"
proof (induction dt i g rule: unitLoop.induct)
  case (1 dt i g)
  show ?case
    using "1.IH" by (subst unitLoop.simps) simp
qed


lemma keeps_start:
  "\<forall>u\<in>set us. uid u = k \<longrightarrow> isFrozen u \<and> position u = p \<and> attackTimer u = a
   \<Longrightarrow> keeps k p a 0 us"
  by (simp add: keeps_def)

lemma keeps_still: "keeps k p a n us \<Longrightarrow> still k p a us"
  by (auto simp: keeps_def still_def in_set_conv_nth)

lemma still_modifyAt:
  "still k p a us \<Longrightarrow> still k p a (modifyAt j (\<lambda>u. u\<lparr>currentHP := h u\<rparr>) us)"
  by (auto simp: still_def modifyAt_def)

lemma still_towerAttack: "still k p a (units g) \<Longrightarrow> still k p a (units (towerAttack b g))"
  by (auto simp: towerAttack_def Let_def setTower_def CreateAttackEffect_def still_modifyAt
        split: option.splits)

lemma still_HandleTowerAttacks:
  "still k p a (units g) \<Longrightarrow> still k p a (units (HandleTowerAttacks g))"
  by (simp add: HandleTowerAttacks_def still_towerAttack)

lemma uid_newUnit [simp]: "uid (newUnit n ty pl) = n"
  by (simp add: newUnit_def generatePath_def Let_def)

lemma still_HandleWaveProgression:
  "still k p a (units g) \<Longrightarrow> nextUid g \<noteq> k \<Longrightarrow>
   still k p a (units (HandleWaveProgression dt g))"
  by (auto simp: HandleWaveProgression_def Let_def still_def split: option.splits)

lemma frozen_tick:
  assumes st: "currentState g = PLAYING" "\<not> gameOver g" and fresh: "nextUid g \<noteq> k"
    and fr: "\<forall>u\<in>set (units g). uid u = k \<longrightarrow> isFrozen u \<and> position u = p \<and> attackTimer u = a"
  shows "\<forall>u\<in>set (units (Game_Update dt enter keyR g)).
           uid u = k \<longrightarrow> position u = p \<and> attackTimer u = a"
proof -
  let ?g1 = "updateTowers dt (updateElixir dt (updateGameTimer dt (updateFreezeCooldown dt g)))"
  let ?g2 = "unitLoop dt 0 ?g1"
  have "keeps k p a 0 (units ?g1)" using fr by (simp add: keeps_start)
  then have "still k p a (units ?g2)" using keeps_unitLoop keeps_still by blast
  then have "still k p a (units (HandleTowerAttacks (updateProjectiles dt ?g2)))"
    by (simp add: still_HandleTowerAttacks)
  moreover have "nextUid (HandleTowerAttacks (updateProjectiles dt ?g2)) \<noteq> k"
    using fresh by simp
  ultimately have "still k p a (units (HandleWaveProgression dt
                     (HandleTowerAttacks (updateProjectiles dt ?g2))))"
    by (rule still_HandleWaveProgression)
  then show ?thesis using st by (simp add: Game_Update_def still_def)
qed

text \<open>
  Claim C4. Activating freeze while it is available and the match is Playing sets the
  frozen flag and the full freeze duration of 5 seconds on every living enemy unit,
  leaves every player unit (and every dead unit) as it is, and starts the 30 second
  cooldown. The update of a living frozen unit only takes the elapsed time off its
  freeze timer and clears the flag when the timer reaches 0 or below: on every such
  tick, the one that ends the freeze included, its position, attack timer, path and
  health stay as they are, and no other unit is touched. Over a whole tick of the
  controller, a unit that is frozen when the tick starts and is still in the collection
  when it ends has the position and the attack timer it started with.
\<close>

theorem freeze_spec:
  "(currentState g = PLAYING \<and> freezeAvailable g \<longrightarrow>
      length (units (ActivateFreeze rnd g)) = length (units g)
      \<and> (\<forall>i<length (units g).
            (\<not> isPlayer (units g ! i) \<and> isAlive (units g ! i) \<longrightarrow>
               units (ActivateFreeze rnd g) ! i =
                 (units g ! i)\<lparr>isFrozen := True, freezeTimer := 5\<rparr>)
          \<and> (isPlayer (units g ! i) \<or> \<not> isAlive (units g ! i) \<longrightarrow>
               units (ActivateFreeze rnd g) ! i = units g ! i))
      \<and> \<not> freezeAvailable (ActivateFreeze rnd g)
      \<and> freezeCooldown (ActivateFreeze rnd g) = 30)
   \<and> (i < length us \<and> isAlive (us ! i) \<and> isFrozen (us ! i) \<longrightarrow>
        Unit_Update dt i us =
          us[i := (us ! i)\<lparr>freezeTimer := freezeTimer (us ! i) - dt,
                           isFrozen := (0 < freezeTimer (us ! i) - dt)\<rparr>]
        \<and> position (Unit_Update dt i us ! i) = position (us ! i)
        \<and> attackTimer (Unit_Update dt i us ! i) = attackTimer (us ! i)
        \<and> path (Unit_Update dt i us ! i) = path (us ! i)
        \<and> currentHP (Unit_Update dt i us ! i) = currentHP (us ! i))
   \<and> (currentState s = PLAYING \<and> \<not> gameOver s \<and> nextUid s \<noteq> k
        \<and> (\<forall>u\<in>set (units s). uid u = k \<longrightarrow>
              isFrozen u \<and> position u = p \<and> attackTimer u = a) \<longrightarrow>
        (\<forall>u\<in>set (units (Game_Update dt enter keyR s)).
           uid u = k \<longrightarrow> position u = p \<and> attackTimer u = a))"
proof (intro conjI)
  show "currentState g = PLAYING \<and> freezeAvailable g \<longrightarrow>
      length (units (ActivateFreeze rnd g)) = length (units g)
      \<and> (\<forall>i<length (units g).
            (\<not> isPlayer (units g ! i) \<and> isAlive (units g ! i) \<longrightarrow>
               units (ActivateFreeze rnd g) ! i =
                 (units g ! i)\<lparr>isFrozen := True, freezeTimer := 5\<rparr>)
          \<and> (isPlayer (units g ! i) \<or> \<not> isAlive (units g ! i) \<longrightarrow>
               units (ActivateFreeze rnd g) ! i = units g ! i))
      \<and> \<not> freezeAvailable (ActivateFreeze rnd g)
      \<and> freezeCooldown (ActivateFreeze rnd g) = 30"
    by (auto simp: ActivateFreeze_def CreateFreezeEffect_def consts_defs)
  show "i < length us \<and> isAlive (us ! i) \<and> isFrozen (us ! i) \<longrightarrow>
        Unit_Update dt i us =
          us[i := (us ! i)\<lparr>freezeTimer := freezeTimer (us ! i) - dt,
                           isFrozen := (0 < freezeTimer (us ! i) - dt)\<rparr>]
        \<and> position (Unit_Update dt i us ! i) = position (us ! i)
        \<and> attackTimer (Unit_Update dt i us ! i) = attackTimer (us ! i)
        \<and> path (Unit_Update dt i us ! i) = path (us ! i)
        \<and> currentHP (Unit_Update dt i us ! i) = currentHP (us ! i)"
    by (auto simp: Unit_Update_def Let_def not_le)
  show "currentState s = PLAYING \<and> \<not> gameOver s \<and> nextUid s \<noteq> k
        \<and> (\<forall>u\<in>set (units s). uid u = k \<longrightarrow>
              isFrozen u \<and> position u = p \<and> attackTimer u = a) \<longrightarrow>
        (\<forall>u\<in>set (units (Game_Update dt enter keyR s)).
           uid u = k \<longrightarrow> position u = p \<and> attackTimer u = a)"
    using frozen_tick [of s k p a dt enter keyR] by blast
qed

theorem freeze_spec_witness:
  "isFrozen (units (ActivateFreeze (\<lambda>_. 0) freezeGame) ! 0)
   \<and> freezeTimer (units (ActivateFreeze (\<lambda>_. 0) freezeGame) ! 0) = 5
   \<and> units (ActivateFreeze (\<lambda>_. 0) freezeGame) ! 1 = units freezeGame ! 1
   \<and> position (Unit_Update 5 0 (units (ActivateFreeze (\<lambda>_. 0) freezeGame)) ! 0)
       = \<lparr>vx = 700, vy = 400\<rparr>
   \<and> attackTimer (Unit_Update 5 0 (units (ActivateFreeze (\<lambda>_. 0) freezeGame)) ! 0) = 0
   \<and> \<not> isFrozen (Unit_Update 5 0 (units (ActivateFreeze (\<lambda>_. 0) freezeGame)) ! 0)
   \<and> isFrozen (Unit_Update 2 0 (units (ActivateFreeze (\<lambda>_. 0) freezeGame)) ! 0)
   \<and> position (units (Game_Update 5 False False (ActivateFreeze (\<lambda>_. 0) freezeGame)) ! 0)
       = \<lparr>vx = 700, vy = 400\<rparr>
   \<and> position (units (Game_Update 5 False False (ActivateFreeze (\<lambda>_. 0) freezeGame)) ! 1)
       = \<lparr>vx = 800, vy = 400\<rparr>"
proof -
  let ?g = "ActivateFreeze (\<lambda>_. 0) freezeGame"
  let ?p = "\<lparr>vx = 700, vy = 400\<rparr>"
  note T = freeze_spec [of freezeGame "\<lambda>_. 0" 0 "units ?g" 5 ?g 0 ?p 0 False False]
  note T5 = T [THEN conjunct1] T [THEN conjunct2, THEN conjunct1]
  note T2 = freeze_spec [of freezeGame "\<lambda>_. 0" 0 "units ?g" 2 ?g 0 ?p 0 False False,
                          THEN conjunct2, THEN conjunct1]
  note TT = T [THEN conjunct2, THEN conjunct2, rule_format]
  have pre: "currentState freezeGame = PLAYING \<and> freezeAvailable freezeGame
             \<and> length (units freezeGame) = 2
             \<and> \<not> isPlayer (units freezeGame ! 0) \<and> isAlive (units freezeGame ! 0)
             \<and> isPlayer (units freezeGame ! 1)
             \<and> position (units freezeGame ! 0) = ?p
             \<and> attackTimer (units freezeGame ! 0) = 0"
    by (simp add: freezeGame_def newGame_def placed_def newUnit_def generatePath_def Let_def
          consts_defs)
  have len: "length (units ?g) = 2" using T5 pre by simp
  have u0: "units ?g ! 0 = (units freezeGame ! 0)\<lparr>isFrozen := True, freezeTimer := 5\<rparr>"
    using T5 pre by simp
  have u1: "units ?g ! 1 = units freezeGame ! 1" using T5 pre by simp
  have fr: "0 < length (units ?g) \<and> isAlive (units ?g ! 0) \<and> isFrozen (units ?g ! 0)"
    using len u0 pre by simp
  have t5: "position (Unit_Update 5 0 (units ?g) ! 0) = position (units ?g ! 0)
            \<and> attackTimer (Unit_Update 5 0 (units ?g) ! 0) = attackTimer (units ?g ! 0)
            \<and> Unit_Update 5 0 (units ?g) =
                (units ?g)[0 := (units ?g ! 0)\<lparr>freezeTimer := freezeTimer (units ?g ! 0) - 5,
                                               isFrozen := (0 < freezeTimer (units ?g ! 0) - 5)\<rparr>]"
    using T5 fr by simp
  have t2: "Unit_Update 2 0 (units ?g) =
                (units ?g)[0 := (units ?g ! 0)\<lparr>freezeTimer := freezeTimer (units ?g ! 0) - 2,
                                               isFrozen := (0 < freezeTimer (units ?g ! 0) - 2)\<rparr>]"
    using T2 fr by simp
  have gpre: "currentState ?g = PLAYING \<and> \<not> gameOver ?g \<and> nextUid ?g \<noteq> 0"
    by (simp add: freezeGame_def newGame_def ActivateFreeze_def CreateFreezeEffect_def)
  have m: "map (\<lambda>u. (uid u, isFrozen u, position u, attackTimer u)) (units ?g)
             = [(0, True, ?p, 0), (1, False, \<lparr>vx = 400, vy = 400\<rparr>, 0)]"
    by (simp add: freezeGame_def newGame_def placed_def newUnit_def generatePath_def Let_def
          consts_defs ActivateFreeze_def CreateFreezeEffect_def)
  have fz: "\<forall>u\<in>set (units ?g). uid u = 0 \<longrightarrow> isFrozen u \<and> position u = ?p \<and> attackTimer u = 0"
  proof (intro ballI impI)
    fix u assume u: "u \<in> set (units ?g)" and k: "uid u = 0"
    from u have "(uid u, isFrozen u, position u, attackTimer u)
                   \<in> set (map (\<lambda>u. (uid u, isFrozen u, position u, attackTimer u)) (units ?g))"
      by (simp only: set_map) (rule imageI)
    then have "(uid u, isFrozen u, position u, attackTimer u)
                 \<in> set [(0, True, ?p, 0), (1, False, \<lparr>vx = 400, vy = 400\<rparr>, 0)]"
      by (simp only: m)
    with k show "isFrozen u \<and> position u = ?p \<and> attackTimer u = 0" by auto
  qed
  have hyp: "currentState ?g = PLAYING \<and> \<not> gameOver ?g \<and> nextUid ?g \<noteq> 0
        \<and> (\<forall>u\<in>set (units ?g). uid u = 0 \<longrightarrow>
              isFrozen u \<and> position u = ?p \<and> attackTimer u = 0)"
    using gpre fz by (intro conjI) (erule conjunct1, erule conjunct2 [THEN conjunct1],
      erule conjunct2 [THEN conjunct2])
  have after: "0 < length (units (Game_Update 5 False False ?g))
               \<and> uid (units (Game_Update 5 False False ?g) ! 0) = 0
               \<and> position (units (Game_Update 5 False False ?g) ! 1) = \<lparr>vx = 800, vy = 400\<rparr>"
    by (simp add: freezeGame_def ActivateFreeze_def CreateFreezeEffect_def tick_ev)
  then have "units (Game_Update 5 False False ?g) ! 0 \<in> set (units (Game_Update 5 False False ?g))"
    by simp
  from TT [OF hyp this] after have t0: "position (units (Game_Update 5 False False ?g) ! 0) = ?p"
    by simp
  show ?thesis
    using u0 u1 t5 t2 pre len t0 after by simp
qed

subsection \<open>Lane-end damage\<close>

text \<open>
  Claim C10. On a Playing tick the unit loop visits every unit that is alive when the
  loop reaches it: it runs the unit's update and then the lane-end check. A frozen unit
  does not move in its update, so a frozen player unit at or beyond 60 units before the
  enemy tower's \<open>x\<close> takes its full damage off the enemy tower's health (which is set to 0
  when it would drop to 0 or below), and a frozen enemy unit at or within 60 units after
  the player tower's \<open>x\<close> does the same to the player's tower: the check does not read the
  frozen flag. For any living unit the check is made on the position the unit has after
  its update.
\<close>

theorem visitUnit_lane_end:
  "i < length (units g) \<and> isAlive (units g ! i) \<longrightarrow>
     unitLoop dt i g = unitLoop dt (Suc i) (visitUnit dt i g)
     \<and> (isFrozen (units g ! i) \<longrightarrow>
          position (units (visitUnit dt i g) ! i) = position (units g ! i)
          \<and> attackTimer (units (visitUnit dt i g) ! i) = attackTimer (units g ! i)
          \<and> (isPlayer (units g ! i)
               \<and> vx (t_position (enemyTower g)) - 60 \<le> vx (position (units g ! i)) \<longrightarrow>
                t_currentHP (enemyTower (visitUnit dt i g)) =
                  (if t_currentHP (enemyTower g) - damage (units g ! i) \<le> 0 then 0
                   else t_currentHP (enemyTower g) - damage (units g ! i)))
          \<and> (\<not> isPlayer (units g ! i)
               \<and> vx (position (units g ! i)) \<le> vx (t_position (playerTower g)) + 60 \<longrightarrow>
                t_currentHP (playerTower (visitUnit dt i g)) =
                  (if t_currentHP (playerTower g) - damage (units g ! i) \<le> 0 then 0
                   else t_currentHP (playerTower g) - damage (units g ! i))))
     \<and> (isPlayer (Unit_Update dt i (units g) ! i)
          \<and> vx (t_position (enemyTower g)) - 60 \<le> vx (position (Unit_Update dt i (units g) ! i)) \<longrightarrow>
           t_currentHP (enemyTower (visitUnit dt i g)) =
             (if t_currentHP (enemyTower g) - damage (Unit_Update dt i (units g) ! i) \<le> 0 then 0
              else t_currentHP (enemyTower g) - damage (Unit_Update dt i (units g) ! i)))
     \<and> (\<not> isPlayer (Unit_Update dt i (units g) ! i)
          \<and> vx (position (Unit_Update dt i (units g) ! i)) \<le> vx (t_position (playerTower g)) + 60 \<longrightarrow>
           t_currentHP (playerTower (visitUnit dt i g)) =
             (if t_currentHP (playerTower g) - damage (Unit_Update dt i (units g) ! i) \<le> 0 then 0
              else t_currentHP (playerTower g) - damage (Unit_Update dt i (units g) ! i)))"
proof (intro impI conjI)
  assume a: "i < length (units g) \<and> isAlive (units g ! i)"
  show "unitLoop dt i g = unitLoop dt (Suc i) (visitUnit dt i g)"
    using a by (subst unitLoop.simps) simp
next
  assume "i < length (units g) \<and> isAlive (units g ! i)" "isFrozen (units g ! i)"
  then show "position (units (visitUnit dt i g) ! i) = position (units g ! i)"
    by (simp add: visitUnit_def laneEnd_def Let_def CreateAttackEffect_def Unit_Update_def)
next
  assume "i < length (units g) \<and> isAlive (units g ! i)" "isFrozen (units g ! i)"
  then show "attackTimer (units (visitUnit dt i g) ! i) = attackTimer (units g ! i)"
    by (simp add: visitUnit_def laneEnd_def Let_def CreateAttackEffect_def Unit_Update_def)
next
  assume "i < length (units g) \<and> isAlive (units g ! i)" "isFrozen (units g ! i)"
    "isPlayer (units g ! i) \<and> vx (t_position (enemyTower g)) - 60 \<le> vx (position (units g ! i))"
  then show "t_currentHP (enemyTower (visitUnit dt i g)) =
                  (if t_currentHP (enemyTower g) - damage (units g ! i) \<le> 0 then 0
                   else t_currentHP (enemyTower g) - damage (units g ! i))"
    by (simp add: visitUnit_def laneEnd_def Let_def CreateAttackEffect_def Unit_Update_def)
next
  assume "i < length (units g) \<and> isAlive (units g ! i)" "isFrozen (units g ! i)"
    "\<not> isPlayer (units g ! i) \<and> vx (position (units g ! i)) \<le> vx (t_position (playerTower g)) + 60"
  then show "t_currentHP (playerTower (visitUnit dt i g)) =
                  (if t_currentHP (playerTower g) - damage (units g ! i) \<le> 0 then 0
                   else t_currentHP (playerTower g) - damage (units g ! i))"
    by (simp add: visitUnit_def laneEnd_def Let_def CreateAttackEffect_def Unit_Update_def)
next
  assume "isPlayer (Unit_Update dt i (units g) ! i)
          \<and> vx (t_position (enemyTower g)) - 60 \<le> vx (position (Unit_Update dt i (units g) ! i))"
  then show "t_currentHP (enemyTower (visitUnit dt i g)) =
             (if t_currentHP (enemyTower g) - damage (Unit_Update dt i (units g) ! i) \<le> 0 then 0
              else t_currentHP (enemyTower g) - damage (Unit_Update dt i (units g) ! i))"
    by (simp add: visitUnit_def laneEnd_def Let_def CreateAttackEffect_def)
next
  assume "\<not> isPlayer (Unit_Update dt i (units g) ! i)
          \<and> vx (position (Unit_Update dt i (units g) ! i)) \<le> vx (t_position (playerTower g)) + 60"
  then show "t_currentHP (playerTower (visitUnit dt i g)) =
             (if t_currentHP (playerTower g) - damage (Unit_Update dt i (units g) ! i) \<le> 0 then 0
              else t_currentHP (playerTower g) - damage (Unit_Update dt i (units g) ! i))"
    by (simp add: visitUnit_def laneEnd_def Let_def CreateAttackEffect_def)
qed

theorem visitUnit_lane_end_witness:
  "isFrozen (units laneEndGame ! 0) \<and> isAlive (units laneEndGame ! 0)
   \<and> t_currentHP (playerTower laneEndGame) = 3500
   \<and> t_currentHP (playerTower (visitUnit 0.02 0 laneEndGame)) = 3440
   \<and> position (units (visitUnit 0.02 0 laneEndGame) ! 0) = \<lparr>vx = 104, vy = 400\<rparr>
   \<and> unitLoop 0.02 0 laneEndGame = unitLoop 0.02 1 (visitUnit 0.02 0 laneEndGame)
   \<and> t_currentHP (playerTower (Game_Update 0.02 False False laneEndGame)) = 3440
   \<and> isFrozen (units (Game_Update 0.02 False False laneEndGame) ! 0)"
proof -
  have tick: "t_currentHP (playerTower (Game_Update 0.02 False False laneEndGame)) = 3440
              \<and> isFrozen (units (Game_Update 0.02 False False laneEndGame) ! 0)"
    by (simp add: laneEndGame_def tick_ev)
  have pre: "0 < length (units laneEndGame) \<and> isAlive (units laneEndGame ! 0)
             \<and> isFrozen (units laneEndGame ! 0) \<and> \<not> isPlayer (units laneEndGame ! 0)
             \<and> vx (position (units laneEndGame ! 0)) \<le> vx (t_position (playerTower laneEndGame)) + 60
             \<and> t_currentHP (playerTower laneEndGame) = 3500
             \<and> damage (units laneEndGame ! 0) = 60
             \<and> position (units laneEndGame ! 0) = \<lparr>vx = 104, vy = 400\<rparr>
             \<and> vx (t_position (playerTower laneEndGame)) = 50"
    by (simp add: laneEndGame_def newGame_def newTower_def placed_def newUnit_def
          generatePath_def Let_def consts_defs)
  show ?thesis
    using visitUnit_lane_end [of 0 laneEndGame "0.02"] pre tick by simp
qed

subsection \<open>Damage that does not come from a unit's direct attack\<close>

text \<open>
  Claim C1 fails on the code. A tower's attack and a Wizard's splash take hit points off
  a unit without the test that \<^verbatim>\<open>Unit::Attack\<close> makes for its primary target: a unit
  brought to 0 hit points or below by either stays alive. Here the player's tower
  brings an enemy Knight from 50 to 0 hit points; the Knight is still alive after the
  tick and walks on in the next tick. A Wizard's splash brings an Archer from 30 to -5
  hit points and leaves it alive.
\<close>

theorem tower_and_splash_leave_unit_alive:
  "isAlive (units weakEnemyGame ! 0) \<and> currentHP (units weakEnemyGame ! 0) = 50
   \<and> isAlive (units (Game_Update 0.02 False False weakEnemyGame) ! 0)
   \<and> currentHP (units (Game_Update 0.02 False False weakEnemyGame) ! 0) = 0
   \<and> isAlive (units (Game_Update 0.02 False False
                        (Game_Update 0.02 False False weakEnemyGame)) ! 0)
   \<and> vx (position (units (Game_Update 0.02 False False
                        (Game_Update 0.02 False False weakEnemyGame)) ! 0)) = 196.8
   \<and> currentHP (splashUnits ! 2) = 30
   \<and> isAlive (Attack 0 (Some 1) splashUnits ! 2)
   \<and> currentHP (Attack 0 (Some 1) splashUnits ! 2) = - 5"
proof -
  have a: "isAlive (units weakEnemyGame ! 0) \<and> currentHP (units weakEnemyGame ! 0) = 50"
    by (simp add: weakEnemyGame_def unit_ev)
  have b: "isAlive (units (Game_Update 0.02 False False weakEnemyGame) ! 0)
           \<and> currentHP (units (Game_Update 0.02 False False weakEnemyGame) ! 0) = 0"
    by (simp add: weakEnemyGame_def tick_ev)
  have c: "isAlive (units (Game_Update 0.02 False False
                        (Game_Update 0.02 False False weakEnemyGame)) ! 0)
           \<and> vx (position (units (Game_Update 0.02 False False
                        (Game_Update 0.02 False False weakEnemyGame)) ! 0)) = 196.8"
    by (simp add: weakEnemyGame_def tick_ev)
  have d: "currentHP (splashUnits ! 2) = 30
           \<and> isAlive (Attack 0 (Some 1) splashUnits ! 2)
           \<and> currentHP (Attack 0 (Some 1) splashUnits ! 2) = - 5"
    by (simp add: splashUnits_def unit_ev)
  from a b c d show ?thesis by blast
qed

subsection \<open>Attacks on a dead target\<close>

lemma Attack_dead_target: "\<not> targetAlive allUnits t \<Longrightarrow> Attack i t allUnits = allUnits"
  by (simp add: Attack_def)

text \<open>
  Claim C5 fails on the code. \<^verbatim>\<open>Unit::Attack\<close> returns at once on a dead target, but
  \<^verbatim>\<open>Game::HandleTowerAttacks\<close> tests its best target only against the null pointer. Here
  the player's Knight kills the enemy Knight in the unit loop; the player's tower, whose
  queue was built before the loop, then fires at the dead Knight: its hit points go from
  0 to -50, an attack effect is created and the tower's attack timer is reset.
\<close>

theorem tower_attacks_dead_target:
  "Game_Update 0.02 False False deadTargetGame
     = HandleWaveProgression 0.02 (HandleTowerAttacks deadTargetMid)
   \<and> \<not> isAlive (units deadTargetMid ! 0)
   \<and> currentHP (units deadTargetMid ! 0) = 0
   \<and> GetBestTarget (playerTower deadTargetMid) = Some (uid (units deadTargetMid ! 0))
   \<and> projectiles deadTargetMid = []
   \<and> t_attackTimer (playerTower deadTargetMid) = 1.01
   \<and> currentHP (units (HandleTowerAttacks deadTargetMid) ! 0) = - 50
   \<and> length (projectiles (HandleTowerAttacks deadTargetMid)) = 1
   \<and> t_attackTimer (playerTower (HandleTowerAttacks deadTargetMid)) = 0
   \<and> Attack 1 (Some 0) (units deadTargetMid) = units deadTargetMid"
proof -
  have a: "Game_Update 0.02 False False deadTargetGame
             = HandleWaveProgression 0.02 (HandleTowerAttacks deadTargetMid)"
    by (simp add: Game_Update_def deadTargetMid_def deadTargetGame_def newGame_def)
  have b: "\<not> isAlive (units deadTargetMid ! 0) \<and> currentHP (units deadTargetMid ! 0) = 0
           \<and> GetBestTarget (playerTower deadTargetMid) = Some (uid (units deadTargetMid ! 0))
           \<and> projectiles deadTargetMid = []
           \<and> t_attackTimer (playerTower deadTargetMid) = 1.01"
    by (simp add: deadTargetMid_def deadTargetGame_def tick_ev)
  have c: "currentHP (units (HandleTowerAttacks deadTargetMid) ! 0) = - 50
           \<and> length (projectiles (HandleTowerAttacks deadTargetMid)) = 1
           \<and> t_attackTimer (playerTower (HandleTowerAttacks deadTargetMid)) = 0"
    by (simp add: deadTargetMid_def deadTargetGame_def tick_ev)
  have "\<not> targetAlive (units deadTargetMid) (Some 0)"
    by (simp add: deadTargetMid_def deadTargetGame_def tick_ev)
  then have d: "Attack 1 (Some 0) (units deadTargetMid) = units deadTargetMid"
    by (rule Attack_dead_target)
  from a b c d show ?thesis by blast
qed

subsection \<open>Target selection\<close>

subsection \<open>The head of the sorted range\<close>


lemma linear_insert_not_Nil [simp]: "linear_insert cmp v ys \<noteq> []"
  by (cases ys) auto

lemma last_linear_insert:
  "ys \<noteq> [] \<Longrightarrow> \<not> cmp v (last ys) \<Longrightarrow> last (linear_insert cmp v ys) = last ys"
  by (induction ys) auto

lemma set_linear_insert [simp]: "set (linear_insert cmp v ys) = insert v (set ys)"
  by (induction ys) auto

lemma insertion_step_not_Nil [simp]: "insertion_step cmp pre v \<noteq> []"
  by (simp add: insertion_step_def)

lemma set_insertion_step [simp]: "set (insertion_step cmp pre v) = insert v (set pre)"
  by (simp add: insertion_step_def)

lemma hd_insertion_step:
  "pre \<noteq> [] \<Longrightarrow> hd (insertion_step cmp pre v) = (if cmp v (hd pre) then v else hd pre)"
  by (simp add: insertion_step_def hd_rev last_linear_insert last_rev)

lemma hd_foldl_insertion_step:
  "pre \<noteq> [] \<Longrightarrow> hd (foldl (insertion_step cmp) pre xs) = champion cmp (hd pre) xs"
  by (induction xs arbitrary: pre) (simp_all add: champion_def hd_insertion_step)

lemma set_foldl_insertion_step:
  "set (foldl (insertion_step cmp) pre xs) = set pre \<union> set xs"
  by (induction xs arbitrary: pre) auto

lemma hd_std_sort: "hd (std_sort cmp (x # xs)) = champion cmp x xs"
  by (simp add: hd_foldl_insertion_step)

lemma set_std_sort [simp]: "set (std_sort cmp xs) = set xs"
  by (cases xs) (auto simp: set_foldl_insertion_step)

lemma champion_mem: "champion cmp h xs \<in> insert h (set xs)"
  by (induction xs arbitrary: h) (auto simp: champion_def)

lemma champion_least:
  fixes f :: "'a \<Rightarrow> 'b::linorder"
  assumes "\<forall>a\<in>insert h (set xs). \<forall>b\<in>insert h (set xs). cmp a b = (f a < f b)"
  shows "\<forall>c\<in>insert h (set xs). f (champion cmp h xs) \<le> f c"
  using assms
proof (induction xs arbitrary: h)
  case Nil
  then show ?case by (simp add: champion_def)
next
  case (Cons x xs)
  let ?h = "if cmp x h then x else h"
  have step: "champion cmp h (x # xs) = champion cmp ?h xs"
    by (simp add: champion_def)
  have sub: "insert ?h (set xs) \<subseteq> insert h (set (x # xs))" by auto
  have "\<forall>a\<in>insert ?h (set xs). \<forall>b\<in>insert ?h (set xs). cmp a b = (f a < f b)"
    using Cons.prems sub by blast
  then have ih: "\<forall>c\<in>insert ?h (set xs). f (champion cmp ?h xs) \<le> f c"
    by (rule Cons.IH)
  have cmpxh: "cmp x h = (f x < f h)" using Cons.prems by simp
  have hh: "f ?h \<le> f h \<and> f ?h \<le> f x" using cmpxh by auto
  have "f (champion cmp ?h xs) \<le> f ?h" using ih by blast
  with hh ih show ?case unfolding step by auto
qed

subsection \<open>The top of the heap\<close>

lemma length_push_heap [simp]:
  "length (push_heap cmp v hole xs) = length xs"
  by (induction cmp v hole xs rule: push_heap.induct) (subst push_heap.simps, simp)

lemma mset_push_heap:
  "hole < length xs \<Longrightarrow> mset (push_heap cmp v hole xs) = mset (xs[hole := v])"
proof (induction cmp v hole xs rule: push_heap.induct)
  case (1 cmp v hole xs)
  let ?p = "(hole - 1) div 2"
  show ?case
  proof (cases "hole > 0 \<and> cmp (xs ! ?p) v")
    case True
    then have "0 < hole" by simp
    then have p: "?p < hole" by arith
    with 1 True have "mset (push_heap cmp v ?p (xs[hole := xs ! ?p]))
                        = mset ((xs[hole := xs ! ?p])[?p := v])"
      by simp
    also have "\<dots> = mset (xs[hole := v])"
      using p "1.prems" by (simp add: mset_update nth_list_update)
    finally show ?thesis using True by (subst push_heap.simps) simp
  next
    case False
    then show ?thesis by (subst push_heap.simps) auto
  qed
qed

lemma set_pq_push [simp]: "set (pq_push cmp q v) = insert v (set q)"
proof -
  have "mset (pq_push cmp q v) = mset ((q @ [v])[length q := v])"
    unfolding pq_push_def by (rule mset_push_heap) simp
  then have "set_mset (mset (pq_push cmp q v)) = set_mset (mset ((q @ [v])[length q := v]))"
    by simp
  then show ?thesis by simp
qed

lemma pq_push_not_Nil [simp]: "pq_push cmp q v \<noteq> []"
  using set_pq_push [of cmp q v] by (metis empty_iff insert_iff set_empty)

lemma hd_list_update_pos: "0 < i \<Longrightarrow> hd (xs[i := v]) = hd xs"
  by (cases xs; cases i) auto

lemma hd_push_heap:
  "hole < length xs \<Longrightarrow>
   (hd (push_heap cmp v hole xs) = v \<and> (hole = 0 \<or> cmp (hd xs) v))
   \<or> (hole > 0 \<and> hd (push_heap cmp v hole xs) = hd xs \<and> (\<exists>p<hole. \<not> cmp (xs ! p) v))"
proof (induction cmp v hole xs rule: push_heap.induct)
  case (1 cmp v hole xs)
  let ?p = "(hole - 1) div 2"
  from "1.prems" have ne: "xs \<noteq> []" by auto
  show ?case
  proof (cases "hole > 0 \<and> cmp (xs ! ?p) v")
    case True
    then have "0 < hole" by simp
    then have p: "?p < hole" by arith
    let ?xs = "xs[hole := xs ! ?p]"
    have hdxs: "hd ?xs = hd xs" using True by (simp add: hd_list_update_pos)
    have unf: "push_heap cmp v hole xs = push_heap cmp v ?p ?xs"
      using True by (subst push_heap.simps) simp
    from 1 True p have ih:
      "(hd (push_heap cmp v ?p ?xs) = v \<and> (?p = 0 \<or> cmp (hd ?xs) v))
       \<or> (?p > 0 \<and> hd (push_heap cmp v ?p ?xs) = hd ?xs \<and> (\<exists>q<?p. \<not> cmp (?xs ! q) v))"
      by simp
    then show ?thesis
    proof
      assume a: "hd (push_heap cmp v ?p ?xs) = v \<and> (?p = 0 \<or> cmp (hd ?xs) v)"
      have "cmp (hd xs) v"
      proof (cases "?p = 0")
        case True
        with \<open>hole > 0 \<and> cmp (xs ! ?p) v\<close> ne show ?thesis by (simp add: hd_conv_nth)
      next
        case False
        with a hdxs show ?thesis by simp
      qed
      with a unf show ?thesis by simp
    next
      assume b: "?p > 0 \<and> hd (push_heap cmp v ?p ?xs) = hd ?xs \<and> (\<exists>q<?p. \<not> cmp (?xs ! q) v)"
      then obtain q where q: "q < ?p" "\<not> cmp (?xs ! q) v" by blast
      with p have "q < hole" "\<not> cmp (xs ! q) v" by auto
      with b unf hdxs True show ?thesis by auto
    qed
  next
    case False
    have unf: "push_heap cmp v hole xs = xs[hole := v]"
      using False by (subst push_heap.simps) auto
    show ?thesis
    proof (cases "hole = 0")
      case True
      with unf ne show ?thesis by (cases xs) auto
    next
      case h: False
      with False have "\<not> cmp (xs ! ?p) v" "?p < hole" by auto
      moreover have "hd (xs[hole := v]) = hd xs" using h by (simp add: hd_list_update_pos)
      ultimately show ?thesis using unf h by auto
    qed
  qed
qed

lemma hd_pq_push:
  "q \<noteq> [] \<Longrightarrow>
   (hd (pq_push cmp q v) = v \<and> cmp (hd q) v)
   \<or> (hd (pq_push cmp q v) = hd q \<and> (\<exists>x\<in>set q. \<not> cmp x v))"
proof -
  assume ne: "q \<noteq> []"
  have "length q < length (q @ [v])" by simp
  from hd_push_heap [OF this, of cmp v] ne
  show ?thesis
    unfolding pq_push_def
    by (auto simp: nth_append hd_append)
qed

lemma hd_pq_push_Nil [simp]: "pq_push cmp [] v = [v]"
  by (simp add: pq_push_def push_heap.simps)

lemma pq_push_least:
  fixes f :: "'a \<Rightarrow> 'b::linorder"
  assumes ord: "\<forall>a\<in>insert v (set q). \<forall>b\<in>insert v (set q). cmp a b = (f b < f a)"
    and inv: "\<forall>c\<in>set q. f (hd q) \<le> f c"
  shows "\<forall>c\<in>insert v (set q). f (hd (pq_push cmp q v)) \<le> f c"
proof (cases "q = []")
  case True
  then show ?thesis by simp
next
  case False
  then have hq: "hd q \<in> set q" by simp
  from hd_pq_push [OF False, of cmp v]
  show ?thesis
  proof
    assume a: "hd (pq_push cmp q v) = v \<and> cmp (hd q) v"
    then have "f v < f (hd q)" using ord hq by simp
    with inv a show ?thesis by fastforce
  next
    assume b: "hd (pq_push cmp q v) = hd q \<and> (\<exists>x\<in>set q. \<not> cmp x v)"
    then obtain x where x: "x \<in> set q" "\<not> cmp x v" by blast
    then have "f x \<le> f v" using ord by auto
    moreover have "f (hd q) \<le> f x" using inv x by simp
    ultimately have "f (hd q) \<le> f v" by simp
    with inv b show ?thesis by simp
  qed
qed


lemma foldl_queueUnit:
  "foldl (queueUnit t allUnits) q us
     = foldl (pq_push (TowerTargetPriority allUnits)) q (towerCandidates t us)"
  by (induction us arbitrary: q) (simp_all add: queueUnit_def Let_def)

lemma targetQueue_UpdateTargetQueue:
  "targetQueue (UpdateTargetQueue us t)
     = foldl (pq_push (TowerTargetPriority us)) [] (towerCandidates t us)"
  by (simp add: UpdateTargetQueue_def foldl_queueUnit)

lemma set_foldl_pq_push [simp]: "set (foldl (pq_push cmp) q xs) = set q \<union> set xs"
  by (induction xs arbitrary: q) auto

lemma foldl_pq_push_least:
  fixes f :: "'a \<Rightarrow> 'b::linorder"
  assumes "\<forall>a\<in>set q \<union> set xs. \<forall>b\<in>set q \<union> set xs. cmp a b = (f b < f a)"
    and "\<forall>c\<in>set q. f (hd q) \<le> f c"
  shows "\<forall>c\<in>set q \<union> set xs. f (hd (foldl (pq_push cmp) q xs)) \<le> f c"
  using assms
proof (induction xs arbitrary: q)
  case Nil
  then show ?case by simp
next
  case (Cons x xs)
  have ord1: "\<forall>a\<in>insert x (set q). \<forall>b\<in>insert x (set q). cmp a b = (f b < f a)"
    using Cons.prems(1) by simp
  have inv1: "\<forall>c\<in>set (pq_push cmp q x). f (hd (pq_push cmp q x)) \<le> f c"
    using pq_push_least [OF ord1 Cons.prems(2)] by simp
  have ord2: "\<forall>a\<in>set (pq_push cmp q x) \<union> set xs.
                \<forall>b\<in>set (pq_push cmp q x) \<union> set xs. cmp a b = (f b < f a)"
    using Cons.prems(1) by simp
  from Cons.IH [OF ord2 inv1] show ?case by simp
qed

lemma potentialTargets_iff:
  "(k, d) \<in> set (potentialTargets me us) \<longleftrightarrow>
     (\<exists>u\<in>set us. uid u = k \<and> isAlive u \<and> isPlayer u \<noteq> isPlayer me
        \<and> d = CalculateDistance (position me) (position u)
        \<and> d \<le> attackRange me * 1.5)"
  by (induction us) (auto simp: Let_def)

lemma towerCandidates_iff:
  "(k, d) \<in> set (towerCandidates t us) \<longleftrightarrow>
     (\<exists>u\<in>set us. uid u = k \<and> isAlive u \<and> isPlayer u \<noteq> t_isPlayer t
        \<and> d = CalculateDistance (t_position t) (position u)
        \<and> d < TOWER_RANGE)"
  by (induction us) (auto simp: Let_def)

lemma unit_choice:
  assumes i: "i < length us" and ne: "potentialTargets (us ! i) us \<noteq> []"
  shows "\<exists>c\<in>set (potentialTargets (us ! i) us).
           target (FindTargetWithPriority i us ! i) = Some (fst c)
           \<and> ((\<forall>a\<in>set (potentialTargets (us ! i) us). \<forall>b\<in>set (potentialTargets (us ! i) us).
                  a \<noteq> b \<longrightarrow> 10 \<le> \<bar>snd a - snd b\<bar>)
                \<longrightarrow> (\<forall>d\<in>set (potentialTargets (us ! i) us). snd c \<le> snd d))
           \<and> ((\<forall>a\<in>set (potentialTargets (us ! i) us). \<forall>b\<in>set (potentialTargets (us ! i) us).
                  \<bar>snd a - snd b\<bar> < 10)
                \<longrightarrow> (\<forall>d\<in>set (potentialTargets (us ! i) us).
                       hpAt us (fst c) \<le> hpAt us (fst d)))"
proof -
  let ?pt = "potentialTargets (us ! i) us"
  let ?cmp = "unitTargetLess us"
  from ne obtain x xs where pt: "?pt = x # xs" by (cases ?pt) auto
  let ?c = "champion ?cmp x xs"
  have mem: "?c \<in> set ?pt" using champion_mem [of ?cmp x xs] pt by simp
  have tgt: "target (FindTargetWithPriority i us ! i) = Some (fst ?c)"
    using i ne pt by (simp add: FindTargetWithPriority_def Let_def hd_foldl_insertion_step)
  have far: "\<forall>d\<in>set ?pt. snd ?c \<le> snd d"
    if h: "\<forall>a\<in>set ?pt. \<forall>b\<in>set ?pt. a \<noteq> b \<longrightarrow> 10 \<le> \<bar>snd a - snd b\<bar>"
  proof -
    have "\<forall>a\<in>insert x (set xs). \<forall>b\<in>insert x (set xs). ?cmp a b = (snd a < snd b)"
    proof (intro ballI)
      fix a b assume "a \<in> insert x (set xs)" "b \<in> insert x (set xs)"
      then have ab: "a \<in> set ?pt" "b \<in> set ?pt" using pt by auto
      show "?cmp a b = (snd a < snd b)"
      proof (cases "a = b")
        case True
        then show ?thesis by (simp add: unitTargetLess_def)
      next
        case False
        with h ab have "10 \<le> \<bar>snd a - snd b\<bar>" by blast
        then show ?thesis by (simp add: unitTargetLess_def)
      qed
    qed
    from champion_least [OF this] show ?thesis using pt by simp
  qed
  have near: "\<forall>d\<in>set ?pt. hpAt us (fst ?c) \<le> hpAt us (fst d)"
    if h: "\<forall>a\<in>set ?pt. \<forall>b\<in>set ?pt. \<bar>snd a - snd b\<bar> < 10"
  proof -
    have "\<forall>a\<in>insert x (set xs). \<forall>b\<in>insert x (set xs).
            ?cmp a b = (hpAt us (fst a) < hpAt us (fst b))"
      using h pt by (simp add: unitTargetLess_def)
    from champion_least [OF this] show ?thesis using pt by simp
  qed
  from mem tgt far near show ?thesis by blast
qed

lemma tower_choice:
  assumes ne: "towerCandidates t us \<noteq> []"
  shows "\<exists>c\<in>set (towerCandidates t us).
           GetBestTarget (UpdateTargetQueue us t) = Some (fst c)
           \<and> ((\<forall>a\<in>set (towerCandidates t us). \<forall>b\<in>set (towerCandidates t us).
                  a \<noteq> b \<longrightarrow> 10 \<le> \<bar>snd a - snd b\<bar>)
                \<longrightarrow> (\<forall>d\<in>set (towerCandidates t us). snd c \<le> snd d))
           \<and> ((\<forall>a\<in>set (towerCandidates t us). \<forall>b\<in>set (towerCandidates t us).
                  \<bar>snd a - snd b\<bar> < 10)
                \<longrightarrow> (\<forall>d\<in>set (towerCandidates t us).
                       hpAt us (fst c) \<le> hpAt us (fst d)))"
proof -
  let ?tc = "towerCandidates t us"
  let ?cmp = "TowerTargetPriority us"
  let ?q = "foldl (pq_push ?cmp) [] ?tc"
  have setq: "set ?q = set ?tc" by simp
  with ne have qne: "?q \<noteq> []" by (metis set_empty)
  then have mem: "hd ?q \<in> set ?tc" using setq by (metis hd_in_set)
  have tgt: "GetBestTarget (UpdateTargetQueue us t) = Some (fst (hd ?q))"
    using qne by (simp add: GetBestTarget_def targetQueue_UpdateTargetQueue)
  have far: "\<forall>d\<in>set ?tc. snd (hd ?q) \<le> snd d"
    if h: "\<forall>a\<in>set ?tc. \<forall>b\<in>set ?tc. a \<noteq> b \<longrightarrow> 10 \<le> \<bar>snd a - snd b\<bar>"
  proof -
    have "\<forall>a\<in>set [] \<union> set ?tc. \<forall>b\<in>set [] \<union> set ?tc. ?cmp a b = (snd b < snd a)"
    proof (intro ballI)
      fix a b assume "a \<in> set [] \<union> set ?tc" "b \<in> set [] \<union> set ?tc"
      then have ab: "a \<in> set ?tc" "b \<in> set ?tc" by auto
      show "?cmp a b = (snd b < snd a)"
      proof (cases "a = b")
        case True
        then show ?thesis by (simp add: TowerTargetPriority_def)
      next
        case False
        with h ab have "10 \<le> \<bar>snd a - snd b\<bar>" by blast
        then show ?thesis by (simp add: TowerTargetPriority_def)
      qed
    qed
    from foldl_pq_push_least [OF this] show ?thesis by simp
  qed
  have near: "\<forall>d\<in>set ?tc. hpAt us (fst (hd ?q)) \<le> hpAt us (fst d)"
    if h: "\<forall>a\<in>set ?tc. \<forall>b\<in>set ?tc. \<bar>snd a - snd b\<bar> < 10"
  proof -
    have "\<forall>a\<in>set [] \<union> set ?tc. \<forall>b\<in>set [] \<union> set ?tc.
            ?cmp a b = (hpAt us (fst b) < hpAt us (fst a))"
      using h by (simp add: TowerTargetPriority_def)
    from foldl_pq_push_least [OF this] show ?thesis by simp
  qed
  from mem tgt far near show ?thesis by blast
qed

lemma unit_choice_two:
  "i < length us \<Longrightarrow> potentialTargets (us ! i) us = [a, b] \<Longrightarrow>
   target (FindTargetWithPriority i us ! i)
     = Some (fst (if unitTargetLess us b a then b else a))"
  by (simp add: FindTargetWithPriority_def Let_def insertion_step_def)

lemma tower_choice_two:
  "towerCandidates t us = [a, b] \<Longrightarrow>
   GetBestTarget (UpdateTargetQueue us t)
     = Some (fst (if TowerTargetPriority us a b then b else a))"
  by (simp add: GetBestTarget_def targetQueue_UpdateTargetQueue pq_push_def push_heap.simps)

lemma unit_choice_none:
  "i < length us \<Longrightarrow> potentialTargets (us ! i) us = [] \<Longrightarrow>
   target (FindTargetWithPriority i us ! i) = None"
  by (simp add: FindTargetWithPriority_def Let_def)

lemma tower_choice_none:
  "towerCandidates t us = [] \<Longrightarrow> GetBestTarget (UpdateTargetQueue us t) = None"
  by (simp add: GetBestTarget_def targetQueue_UpdateTargetQueue)

lemma TowerTargetPriority_flip: "TowerTargetPriority us a b = unitTargetLess us b a"
  by (simp add: TowerTargetPriority_def unitTargetLess_def abs_minus_commute)

lemmas target_ev = placed_def newUnit_def generatePath_def consts_defs Let_def
  unitAt_def hpAt_def FindTargetWithPriority_def unitTargetLess_def insertion_step_def
  CalculateDistance_lane newTower_def GetBestTarget_def UpdateTargetQueue_def queueUnit_def
  pq_push_def push_heap.simps TowerTargetPriority_def

text \<open>
  Claim C2, as the code has it. A unit searches the living opposing units within 1.5
  times its attack range, a tower those strictly within the tower range; with no such
  candidate no target is chosen, and otherwise the chosen target is one of the
  candidates. Two candidates are compared by health alone when their distances differ
  by less than 10 (the one with strictly lower health wins, neither at equal health)
  and by distance when they differ by 10 or more. With exactly two candidates the one
  later in the collection is chosen if it wins against the earlier one, and the earlier
  one otherwise. With any number of candidates, when all distances differ pairwise by 10
  or more the chosen target is the nearest, and when all differ by less than 10 it has
  the lowest health. Nothing is stated for other mixtures, where the comparison is not
  transitive.
\<close>

theorem targeting_policy:
  "(i < length us \<longrightarrow>
      (potentialTargets (us ! i) us = [] \<longrightarrow>
         target (FindTargetWithPriority i us ! i) = None)
    \<and> (potentialTargets (us ! i) us \<noteq> [] \<longrightarrow>
         (\<exists>c\<in>set (potentialTargets (us ! i) us).
            target (FindTargetWithPriority i us ! i) = Some (fst c)
            \<and> ((\<forall>a\<in>set (potentialTargets (us ! i) us).
                  \<forall>b\<in>set (potentialTargets (us ! i) us).
                    a \<noteq> b \<longrightarrow> 10 \<le> \<bar>snd a - snd b\<bar>)
                 \<longrightarrow> (\<forall>d\<in>set (potentialTargets (us ! i) us). snd c \<le> snd d))
            \<and> ((\<forall>a\<in>set (potentialTargets (us ! i) us).
                  \<forall>b\<in>set (potentialTargets (us ! i) us). \<bar>snd a - snd b\<bar> < 10)
                 \<longrightarrow> (\<forall>d\<in>set (potentialTargets (us ! i) us).
                        hpAt us (fst c) \<le> hpAt us (fst d)))))
    \<and> (potentialTargets (us ! i) us = [a, b] \<longrightarrow>
         target (FindTargetWithPriority i us ! i)
           = Some (fst (if unitTargetLess us b a then b else a))))
   \<and> (towerCandidates t us = [] \<longrightarrow> GetBestTarget (UpdateTargetQueue us t) = None)
   \<and> (towerCandidates t us \<noteq> [] \<longrightarrow>
        (\<exists>c\<in>set (towerCandidates t us).
           GetBestTarget (UpdateTargetQueue us t) = Some (fst c)
           \<and> ((\<forall>a\<in>set (towerCandidates t us). \<forall>b\<in>set (towerCandidates t us).
                  a \<noteq> b \<longrightarrow> 10 \<le> \<bar>snd a - snd b\<bar>)
                \<longrightarrow> (\<forall>d\<in>set (towerCandidates t us). snd c \<le> snd d))
           \<and> ((\<forall>a\<in>set (towerCandidates t us). \<forall>b\<in>set (towerCandidates t us).
                  \<bar>snd a - snd b\<bar> < 10)
                \<longrightarrow> (\<forall>d\<in>set (towerCandidates t us).
                       hpAt us (fst c) \<le> hpAt us (fst d)))))
   \<and> (towerCandidates t us = [a, b] \<longrightarrow>
        GetBestTarget (UpdateTargetQueue us t)
          = Some (fst (if unitTargetLess us b a then b else a)))
   \<and> ((k, d) \<in> set (potentialTargets me us) \<longleftrightarrow>
        (\<exists>u\<in>set us. uid u = k \<and> isAlive u \<and> isPlayer u \<noteq> isPlayer me
           \<and> d = CalculateDistance (position me) (position u)
           \<and> d \<le> attackRange me * 1.5))
   \<and> ((k, d) \<in> set (towerCandidates t us) \<longleftrightarrow>
        (\<exists>u\<in>set us. uid u = k \<and> isAlive u \<and> isPlayer u \<noteq> t_isPlayer t
           \<and> d = CalculateDistance (t_position t) (position u)
           \<and> d < TOWER_RANGE))"
  using unit_choice_none [of i us] unit_choice [of i us] unit_choice_two [of i us a b]
    tower_choice_none [of t us] tower_choice [of t us] tower_choice_two [of t us a b]
    potentialTargets_iff [of k d me us] towerCandidates_iff [of k d t us]
  unfolding TowerTargetPriority_flip
  by (intro conjI impI) assumption+

theorem targeting_policy_witness:
  "target (FindTargetWithPriority 0 tieUnits ! 0) = Some 1
   \<and> GetBestTarget (UpdateTargetQueue tieUnits (newTower True)) = Some 1
   \<and> target (FindTargetWithPriority 0 farUnits ! 0) = Some 2
   \<and> GetBestTarget (UpdateTargetQueue farUnits (newTower True)) = Some 2
   \<and> target (FindTargetWithPriority 0 [tieUnits ! 0] ! 0) = None
   \<and> GetBestTarget (UpdateTargetQueue [tieUnits ! 0] (newTower True)) = None"
proof -
  have tie: "0 < length tieUnits
             \<and> potentialTargets (tieUnits ! 0) tieUnits = [(1, 25), (2, 20)]
             \<and> towerCandidates (newTower True) tieUnits = [(1, 275), (2, 270)]
             \<and> \<not> unitTargetLess tieUnits (2, 20) (1, 25)
             \<and> \<not> unitTargetLess tieUnits (2, 270) (1, 275)"
    by (simp add: tieUnits_def target_ev)
  have t1: "target (FindTargetWithPriority 0 tieUnits ! 0) = Some 1"
    using targeting_policy [of 0 tieUnits "(1, 25)" "(2, 20)"] tie by simp
  have t2: "GetBestTarget (UpdateTargetQueue tieUnits (newTower True)) = Some 1"
    using targeting_policy [of 0 tieUnits "(1, 275)" "(2, 270)" "newTower True"] tie by simp
  have far: "0 < length farUnits
             \<and> potentialTargets (farUnits ! 0) farUnits = [(1, 130), (2, 50)]
             \<and> towerCandidates (newTower True) farUnits = [(1, 280), (2, 200)]"
    by (simp add: farUnits_def target_ev)
  have "\<exists>c\<in>set [(1::nat, 130::real), (2, 50)].
          target (FindTargetWithPriority 0 farUnits ! 0) = Some (fst c)
          \<and> (\<forall>d\<in>set [(1::nat, 130::real), (2, 50)]. snd c \<le> snd d)"
    using targeting_policy [of 0 farUnits "(1, 130)" "(2, 50)" "newTower True"] far
    by simp
  then have f1: "target (FindTargetWithPriority 0 farUnits ! 0) = Some 2" by auto
  have "\<exists>c\<in>set [(1::nat, 280::real), (2, 200)].
          GetBestTarget (UpdateTargetQueue farUnits (newTower True)) = Some (fst c)
          \<and> (\<forall>d\<in>set [(1::nat, 280::real), (2, 200)]. snd c \<le> snd d)"
    using targeting_policy [of 0 farUnits "(1, 280)" "(2, 200)" "newTower True"] far
    by simp
  then have f2: "GetBestTarget (UpdateTargetQueue farUnits (newTower True)) = Some 2" by auto
  have none: "0 < length [tieUnits ! 0]
              \<and> potentialTargets ([tieUnits ! 0] ! 0) [tieUnits ! 0] = []
              \<and> towerCandidates (newTower True) [tieUnits ! 0] = []"
    by (simp add: tieUnits_def target_ev)
  have n1: "target (FindTargetWithPriority 0 [tieUnits ! 0] ! 0) = None"
    using targeting_policy [of 0 "[tieUnits ! 0]" "(1, 25)" "(2, 20)" "newTower True"] none
    by simp
  have n2: "GetBestTarget (UpdateTargetQueue [tieUnits ! 0] (newTower True)) = None"
    using targeting_policy [of 0 "[tieUnits ! 0]" "(1, 25)" "(2, 20)" "newTower True"] none
    by simp
  from t1 t2 f1 f2 n1 n2 show ?thesis by blast
qed

text \<open>The claim C2 as stated fails. Of two undamaged Knights 25 and 20 units away the
  unit, and likewise the tower, picks the farther one, which comes first in the
  collection: no candidate has strictly lower health, yet the target is not the
  nearest. Of three Knights 20, 28 and 36 units away with 300, 200 and 100 hit points
  the unit picks the farthest, 16 units behind the nearest.\<close>

theorem targeting_picks_farther:
  "potentialTargets (tieUnits ! 0) tieUnits = [(1, 25), (2, 20)]
   \<and> hpAt tieUnits 1 = 300 \<and> hpAt tieUnits 2 = 300
   \<and> target (FindTargetWithPriority 0 tieUnits ! 0) = Some 1
   \<and> towerCandidates (newTower True) tieUnits = [(1, 275), (2, 270)]
   \<and> GetBestTarget (UpdateTargetQueue tieUnits (newTower True)) = Some 1
   \<and> potentialTargets (chainUnits ! 0) chainUnits = [(1, 20), (2, 28), (3, 36)]
   \<and> hpAt chainUnits 1 = 300 \<and> hpAt chainUnits 2 = 200 \<and> hpAt chainUnits 3 = 100
   \<and> target (FindTargetWithPriority 0 chainUnits ! 0) = Some 3"
proof -
  have a: "potentialTargets (tieUnits ! 0) tieUnits = [(1, 25), (2, 20)]
           \<and> hpAt tieUnits 1 = 300 \<and> hpAt tieUnits 2 = 300
           \<and> target (FindTargetWithPriority 0 tieUnits ! 0) = Some 1"
    by (simp add: tieUnits_def target_ev)
  have b: "towerCandidates (newTower True) tieUnits = [(1, 275), (2, 270)]
           \<and> GetBestTarget (UpdateTargetQueue tieUnits (newTower True)) = Some 1"
    by (simp add: tieUnits_def target_ev)
  have c: "potentialTargets (chainUnits ! 0) chainUnits = [(1, 20), (2, 28), (3, 36)]
           \<and> hpAt chainUnits 1 = 300 \<and> hpAt chainUnits 2 = 200 \<and> hpAt chainUnits 3 = 100
           \<and> target (FindTargetWithPriority 0 chainUnits ! 0) = Some 3"
    by (simp add: chainUnits_def target_ev)
  from a b c show ?thesis by blast
qed

subsection \<open>When targets are recomputed\<close>

lemma queueUnit_targetQueue_update [simp]:
  "queueUnit (t\<lparr>targetQueue := q\<rparr>) = queueUnit t"
  "queueUnit (t\<lparr>t_attackTimer := x\<rparr>) = queueUnit t"
  by (simp_all add: queueUnit_def fun_eq_iff)

lemma towerCandidates_update [simp]:
  "towerCandidates (t\<lparr>t_attackTimer := x\<rparr>) us = towerCandidates t us"
  by (induction us) (simp_all add: Let_def)

lemma alive_projection:
  "map_option isAlive (unitAt us k)
     = map_option snd (find (\<lambda>p. fst p = k) (map (\<lambda>u. (uid u, isAlive u)) us))"
  by (induction us) (simp_all add: unitAt_def)

lemma targetAlive_projection:
  "targetAlive us t =
     (case t of None \<Rightarrow> False
      | Some k \<Rightarrow> map_option isAlive (unitAt us k) = Some True)"
  by (auto simp: targetAlive_def split: option.splits)

lemma targetAlive_cong:
  "map (\<lambda>u. (uid u, isAlive u)) us = map (\<lambda>u. (uid u, isAlive u)) us'
   \<Longrightarrow> targetAlive us t = targetAlive us' t"
  by (cases t) (simp_all add: targetAlive_projection alive_projection)

lemma targetAlive_update_same:
  "i < length us \<Longrightarrow> uid v = uid (us ! i) \<Longrightarrow> isAlive v = isAlive (us ! i)
   \<Longrightarrow> targetAlive (us[i := v]) t = targetAlive us t"
  by (rule targetAlive_cong) (simp add: map_update list_update_same_conv)

lemma targetAlive_modifyAt_dead:
  "\<not> targetAlive (modifyAt k (\<lambda>u. u\<lparr>isAlive := False\<rparr>) us) (Some k)"
  by (induction us) (auto simp: targetAlive_def modifyAt_def unitAt_def split: option.splits)

lemma Attack_target:
  assumes "i < length us" "target (us ! i) = Some k"
  shows "target (Attack i (Some k) us ! i) = Some k
         \<or> (target (Attack i (Some k) us ! i) = None
             \<and> \<not> targetAlive (Attack i (Some k) us) (Some k))"
  using assms
  by (auto simp: Attack_def Let_def modifyAt_def targetAlive_update_same
        targetAlive_modifyAt_dead [unfolded modifyAt_def])

lemma target_FollowPath [simp]: "target (FollowPath dt u) = target u"
  by (simp add: FollowPath_def Let_def)

lemma sticky_target:
  assumes i: "i < length us" and al: "isAlive (us ! i)" and fr: "\<not> isFrozen (us ! i)"
    and tg: "target (us ! i) = Some k" and ta: "targetAlive us (Some k)"
  shows "target (Unit_Update dt i us ! i) = Some k
         \<or> (target (Unit_Update dt i us ! i) = None
             \<and> \<not> targetAlive (Unit_Update dt i us) (Some k))"
proof -
  let ?me = "us ! i"
  let ?d = "CalculateDistance (position ?me) (position (the (unitAt us k)))"
  let ?us2 = "us[i := ?me\<lparr>attackTimer := attackTimer ?me + dt\<rparr>]"
  consider (far) "\<not> ?d \<le> attackRange ?me"
    | (wait) "?d \<le> attackRange ?me" "\<not> attackRate ?me \<le> attackTimer ?me + dt"
    | (hit) "?d \<le> attackRange ?me" "attackRate ?me \<le> attackTimer ?me + dt"
    by blast
  then show ?thesis
  proof cases
    case far
    then have "Unit_Update dt i us = us[i := (FollowPath dt ?me)\<lparr>attackTimer := 0\<rparr>]"
      using al fr tg ta by (simp add: Unit_Update_def Let_def)
    then show ?thesis using i tg by simp
  next
    case wait
    then have "Unit_Update dt i us = ?us2"
      using i al fr tg ta by (simp add: Unit_Update_def Let_def)
    then show ?thesis using i tg by simp
  next
    case hit
    let ?us3 = "Attack i (Some k) ?us2"
    have upd: "Unit_Update dt i us = ?us3[i := (?us3 ! i)\<lparr>attackTimer := 0\<rparr>]"
      using hit i al fr tg ta by (simp add: Unit_Update_def Let_def)
    have "target (?us2 ! i) = Some k" using i tg by simp
    moreover have "i < length ?us2" using i by simp
    ultimately have at: "target (?us3 ! i) = Some k
         \<or> (target (?us3 ! i) = None \<and> \<not> targetAlive ?us3 (Some k))"
      by (rule Attack_target [rotated])
    have i3: "i < length ?us3" using i by simp
    have ta3: "targetAlive (?us3[i := (?us3 ! i)\<lparr>attackTimer := 0\<rparr>]) (Some k)
                 = targetAlive ?us3 (Some k)"
      using i3 by (intro targetAlive_update_same) simp_all
    show ?thesis
      unfolding upd using at i3 ta3 by auto
  qed
qed

text \<open>
  Claim C3. The update of a living tower discards the previous pool and rebuilds it from
  the empty queue: the result does not depend on the pool the tower held, and holds
  exactly the living opposing units strictly within the tower range; the controller
  runs this update for both towers in every tick that reaches the simulation. A living
  unit that is not frozen and holds a living target does not search again: after its
  update its target is the same unit, even when a nearer opposing unit is present,
  unless its own attack in this update has killed the target, in which case the
  reference is cleared.
\<close>

theorem target_refresh:
  "(t_isAlive t \<longrightarrow>
      Tower_Update dt us (t\<lparr>targetQueue := q\<rparr>) = Tower_Update dt us t
      \<and> targetQueue (Tower_Update dt us t) = foldl (queueUnit t us) [] us
      \<and> set (targetQueue (Tower_Update dt us t)) = set (towerCandidates t us))
   \<and> playerTower (updateTowers dt g) = Tower_Update dt (units g) (playerTower g)
   \<and> enemyTower (updateTowers dt g) = Tower_Update dt (units g) (enemyTower g)
   \<and> (i < length us \<and> isAlive (us ! i) \<and> \<not> isFrozen (us ! i)
        \<and> target (us ! i) = Some k \<and> targetAlive us (Some k) \<longrightarrow>
        target (Unit_Update dt i us ! i) = Some k
        \<or> (target (Unit_Update dt i us ! i) = None
            \<and> \<not> targetAlive (Unit_Update dt i us) (Some k)))"
proof (intro conjI impI)
  assume "t_isAlive t"
  then show "Tower_Update dt us (t\<lparr>targetQueue := q\<rparr>) = Tower_Update dt us t"
    by (simp add: Tower_Update_def UpdateTargetQueue_def)
next
  assume "t_isAlive t"
  then show "targetQueue (Tower_Update dt us t) = foldl (queueUnit t us) [] us"
    by (simp add: Tower_Update_def UpdateTargetQueue_def)
next
  assume "t_isAlive t"
  then show "set (targetQueue (Tower_Update dt us t)) = set (towerCandidates t us)"
    by (simp add: Tower_Update_def targetQueue_UpdateTargetQueue)
next
  show "playerTower (updateTowers dt g) = Tower_Update dt (units g) (playerTower g)"
    by (simp add: updateTowers_def Let_def)
next
  show "enemyTower (updateTowers dt g) = Tower_Update dt (units g) (enemyTower g)"
    by (simp add: updateTowers_def Let_def)
next
  assume "i < length us \<and> isAlive (us ! i) \<and> \<not> isFrozen (us ! i)
        \<and> target (us ! i) = Some k \<and> targetAlive us (Some k)"
  then show "target (Unit_Update dt i us ! i) = Some k
        \<or> (target (Unit_Update dt i us ! i) = None
            \<and> \<not> targetAlive (Unit_Update dt i us) (Some k))"
    using sticky_target by blast
qed

theorem target_refresh_witness:
  "target (stickyUnits ! 0) = Some 1
   \<and> potentialTargets (stickyUnits ! 0) stickyUnits = [(1, 130), (2, 50)]
   \<and> target (Unit_Update 0.02 0 stickyUnits ! 0) = Some 1
   \<and> target (FindTargetWithPriority 0 stickyUnits ! 0) = Some 2
   \<and> Tower_Update 0.02 stickyUnits ((newTower True)\<lparr>targetQueue := [(7, 3)]\<rparr>)
       = Tower_Update 0.02 stickyUnits (newTower True)
   \<and> targetQueue (Tower_Update 0.02 stickyUnits (newTower True)) = [(2, 200), (1, 280)]"
proof -
  have pre: "t_isAlive (newTower True) \<and> 0 < length stickyUnits
             \<and> isAlive (stickyUnits ! 0) \<and> \<not> isFrozen (stickyUnits ! 0)
             \<and> target (stickyUnits ! 0) = Some 1 \<and> targetAlive stickyUnits (Some 1)
             \<and> potentialTargets (stickyUnits ! 0) stickyUnits = [(1, 130), (2, 50)]
             \<and> target (FindTargetWithPriority 0 stickyUnits ! 0) = Some 2"
    by (simp add: stickyUnits_def farUnits_def target_ev targetAlive_def)
  have kept: "target (Unit_Update 0.02 0 stickyUnits ! 0) = Some 1"
    by (simp add: stickyUnits_def farUnits_def unit_ev)
  have q: "targetQueue (Tower_Update 0.02 stickyUnits (newTower True)) = [(2, 200), (1, 280)]"
    by (simp add: stickyUnits_def farUnits_def target_ev Tower_Update_def)
  show ?thesis
    using target_refresh [of "newTower True" "0.02" stickyUnits "[(7, 3)]" newGame 0 1]
      pre kept q
    by simp
qed

end
